theory Spec2Isabelle
  imports Complex_Main "HOL-Library.AList" "HOL-Library.FSet"
begin

section \<open>The IoT ingestion service (services/ingestion/main.py)\<close>

text \<open>
  A shallow embedding of the class \<open>IoTIngestionService\<close>. Every method becomes a
  function from the service state to an outcome and the new state. An outcome is
  \<open>Returned v\<close> or \<open>Raised e\<close>; a Python \<open>try ... except Exception\<close> is a case
  distinction on the outcome of the function that models the body of the \<open>try\<close>
  (named with the suffix \<open>_try\<close>). The logger is not modelled.
\<close>

subsection \<open>Python values, exceptions, outcomes\<close>

datatype pyobj =
    PNone
  | PBool bool
  | PNum rat
  | PStr string
  | PDatetime int
  | PList "pyobj list"
  | PDict "(string \<times> pyobj) list"

datatype error =
    JSONDecodeError | AttributeError | KeyError | TypeError | ValueError
  | ValidationError | RuntimeError
  | InfluxError | KafkaError | RedisError | MongoError | MqttError

datatype 'a result = Returned 'a | Raised error

text \<open>\<open>d.get(k, default)\<close> on the items of a dict.\<close>

definition dict_get :: "(string \<times> pyobj) list \<Rightarrow> string \<Rightarrow> pyobj \<Rightarrow> pyobj" where
  "dict_get d k dflt = (case map_of d k of None \<Rightarrow> dflt | Some v \<Rightarrow> v)"

text \<open>\<open>{**base, **extra}\<close>: a key of \<open>extra\<close> already in \<open>base\<close> keeps its place and
  takes the new value, a new key is appended.\<close>

definition dict_merge :: "(string \<times> pyobj) list \<Rightarrow> (string \<times> pyobj) list \<Rightarrow> (string \<times> pyobj) list" where
  "dict_merge base extra = fold (\<lambda>(k, v) d. AList.update k v d) extra base"

text \<open>\<open>s.split(c)\<close> for a one-character separator: \<open>''a/b''\<close> gives \<open>[''a'', ''b'']\<close>,
  the empty string gives one empty segment.\<close>

fun split :: "char \<Rightarrow> string \<Rightarrow> string list" where
  "split c [] = [[]]"
| "split c (x # xs) =
     (if x = c then [] # split c xs
      else (case split c xs of [] \<Rightarrow> [[x]] | w # ws \<Rightarrow> (x # w) # ws))"

subsection \<open>The reading\<close>

text \<open>
  Modelled from the spec: the class \<open>SensorData\<close> (models/sensor_data.py) is not among
  the sources. Its fields and their types are those of SensorReading in section 3 of
  the specification: \<open>value\<close> and \<open>quality\<close> numeric, \<open>unit\<close> a string, \<open>metadata\<close> a
  mapping, \<open>data_hash\<close> absent until computed. The field \<open>value\<close> is named
  \<open>sensor_value\<close> here.
\<close>

record SensorData =
  device_id :: string
  sensor_type :: string
  timestamp :: int
  sensor_value :: rat
  unit :: string
  quality :: rat
  metadata :: "(string \<times> pyobj) list"
  data_hash :: "string option"

text \<open>
  Modelled from the spec: the constructor of \<open>SensorData\<close>, which is not among the
  sources. An argument that does not have the type of its field makes it raise.
\<close>

definition SensorData_init ::
  "string \<Rightarrow> string \<Rightarrow> int \<Rightarrow> pyobj \<Rightarrow> pyobj \<Rightarrow> pyobj \<Rightarrow> pyobj \<Rightarrow> SensorData result" where
  "SensorData_init did st ts v u q m =
     (case (v, u, q, m) of
        (PNum v', PStr u', PNum q', PDict m') \<Rightarrow>
          Returned \<lparr>device_id = did, sensor_type = st, timestamp = ts, sensor_value = v',
                    unit = u', quality = q', metadata = m', data_hash = None\<rparr>
      | _ \<Rightarrow> Raised ValidationError)"

text \<open>
  Modelled from the spec: \<open>sensor_data.dict()\<close>, a method of the absent class; the
  dict mirrors the fields of the reading.
\<close>

definition SensorData_dict :: "SensorData \<Rightarrow> (string \<times> pyobj) list" where
  "SensorData_dict sd =
     [(''device_id'', PStr (device_id sd)),
      (''sensor_type'', PStr (sensor_type sd)),
      (''timestamp'', PDatetime (timestamp sd)),
      (''value'', PNum (sensor_value sd)),
      (''unit'', PStr (unit sd)),
      (''quality'', PNum (quality sd)),
      (''metadata'', PDict (metadata sd)),
      (''data_hash'', (case data_hash sd of None \<Rightarrow> PNone | Some h \<Rightarrow> PStr h))]"

subsection \<open>Collaborators outside the sources\<close>

text \<open>
  The pure helpers the service imports are parameters of the model:
  \<open>json_loads\<close> is \<open>json.loads(payload.decode('utf-8'))\<close> (\<open>None\<close> when it raises),
  \<open>fromisoformat\<close> is \<open>datetime.fromisoformat\<close> (\<open>None\<close> when it raises),
  \<open>isoformat\<close> is \<open>datetime.isoformat\<close>, \<open>validate_sensor_reading\<close> and
  \<open>hash_sensor_data\<close> are the functions of utils/validation.py and utils/crypto.py,
  taken as pure functions that always return (sections 4.2 and 4.3 of the
  specification).
\<close>

record extern =
  json_loads :: "string \<Rightarrow> pyobj option"
  fromisoformat :: "string \<Rightarrow> int option"
  isoformat :: "int \<Rightarrow> string"
  validate_sensor_reading :: "SensorData \<Rightarrow> bool \<times> string list"
  hash_sensor_data :: "SensorData \<Rightarrow> string"

text \<open>
  What the outside world does during one call of a handler: the reading of the clock
  (\<open>datetime.utcnow()\<close>) and, for each call into a client library, whether that call
  raises.
\<close>

record call_env =
  utcnow :: int
  create_task_fails :: bool
  influx_write_fails :: bool
  kafka_send_fails :: bool
  redis_hset_fails :: bool
  redis_expire_fails :: bool
  redis_set_fails :: bool
  mongo_insert_fails :: bool
  mongo_update_fails :: bool

subsection \<open>The state: the attributes of the service and the contents of the stores\<close>

record point =
  measurement :: string
  point_tags :: "(string \<times> string) list"
  point_fields :: "(string \<times> pyobj) list"
  point_time :: int

record kafka_record =
  topic :: string
  key :: pyobj
  payload :: "(string \<times> pyobj) list"

datatype redis_value = RText pyobj | RHash "string \<rightharpoonup> pyobj"

datatype client = Absent | Open | Closed

record service =
  running :: bool
  messages_processed :: nat
  messages_failed :: nat
  devices_active :: "string fset"
  influxdb_client :: client
  redis_client :: client
  mongodb_client :: client
  kafka_producer :: client
  mqtt_client :: client
  mqtt_loop :: bool
  subscriptions :: "string list"
  stats_task :: bool
  influx_points :: "point list"
  kafka_log :: "kafka_record list"
  redis_db :: "string \<rightharpoonup> redis_value"
  redis_ttl :: "string \<rightharpoonup> nat"
  sensor_metadata :: "pyobj list"
  device_configs :: "string \<rightharpoonup> pyobj"

text \<open>\<open>__init__\<close>: nothing connected, counters at zero, every store empty.\<close>

definition new_service :: service where
  "new_service =
     \<lparr>running = False, messages_processed = 0, messages_failed = 0, devices_active = {||},
      influxdb_client = Absent, redis_client = Absent, mongodb_client = Absent,
      kafka_producer = Absent, mqtt_client = Absent, mqtt_loop = False,
      subscriptions = [], stats_task = False,
      influx_points = [], kafka_log = [], redis_db = Map.empty, redis_ttl = Map.empty,
      sensor_metadata = [], device_configs = Map.empty\<rparr>"

subsection \<open>The client libraries\<close>

text \<open>
  \<open>HSET\<close> sets the given fields of the hash at the key and keeps its other fields; it
  raises on a key that holds a string. \<open>EXPIRE\<close> sets the time to live of an existing
  key. \<open>SET ... EX\<close> replaces whatever the key holds.
\<close>

definition redis_hset ::
  "call_env \<Rightarrow> string \<Rightarrow> (string \<times> pyobj) list \<Rightarrow> service \<Rightarrow> unit result \<times> service" where
  "redis_hset c k mapping s =
     (if redis_hset_fails c then (Raised RedisError, s)
      else (case redis_db s k of
              None \<Rightarrow> (Returned (), s\<lparr>redis_db := (redis_db s)(k \<mapsto> RHash (map_of mapping))\<rparr>)
            | Some (RHash h) \<Rightarrow>
                (Returned (), s\<lparr>redis_db := (redis_db s)(k \<mapsto> RHash (h ++ map_of mapping))\<rparr>)
            | Some (RText t) \<Rightarrow> (Raised RedisError, s)))"

definition redis_expire :: "call_env \<Rightarrow> string \<Rightarrow> nat \<Rightarrow> service \<Rightarrow> unit result \<times> service" where
  "redis_expire c k ttl s =
     (if redis_expire_fails c then (Raised RedisError, s)
      else if redis_db s k = None then (Returned (), s)
      else (Returned (), s\<lparr>redis_ttl := (redis_ttl s)(k \<mapsto> ttl)\<rparr>))"

definition redis_set ::
  "call_env \<Rightarrow> string \<Rightarrow> pyobj \<Rightarrow> nat \<Rightarrow> service \<Rightarrow> unit result \<times> service" where
  "redis_set c k v ex s =
     (if redis_set_fails c then (Raised RedisError, s)
      else (Returned (), s\<lparr>redis_db := (redis_db s)(k \<mapsto> RText v),
                             redis_ttl := (redis_ttl s)(k \<mapsto> ex)\<rparr>))"

text \<open>\<open>write_api.write\<close>, \<open>producer.send\<close>, \<open>insert_one\<close> and \<open>update_one(..., upsert=True)\<close>
  with the device identifier as the filter.\<close>

definition influx_write :: "call_env \<Rightarrow> point \<Rightarrow> service \<Rightarrow> unit result \<times> service" where
  "influx_write c p s =
     (if influx_write_fails c then (Raised InfluxError, s)
      else (Returned (), s\<lparr>influx_points := influx_points s @ [p]\<rparr>))"

definition kafka_send ::
  "call_env \<Rightarrow> string \<Rightarrow> pyobj \<Rightarrow> (string \<times> pyobj) list \<Rightarrow> service \<Rightarrow> unit result \<times> service" where
  "kafka_send c tp k v s =
     (if kafka_send_fails c then (Raised KafkaError, s)
      else (Returned (), s\<lparr>kafka_log := kafka_log s @ [\<lparr>topic = tp, key = k, payload = v\<rparr>]\<rparr>))"

definition mongo_insert_one :: "call_env \<Rightarrow> pyobj \<Rightarrow> service \<Rightarrow> unit result \<times> service" where
  "mongo_insert_one c doc s =
     (if mongo_insert_fails c then (Raised MongoError, s)
      else (Returned (), s\<lparr>sensor_metadata := sensor_metadata s @ [doc]\<rparr>))"

definition mongo_update_one :: "call_env \<Rightarrow> string \<Rightarrow> pyobj \<Rightarrow> service \<Rightarrow> unit result \<times> service" where
  "mongo_update_one c did doc s =
     (if mongo_update_fails c then (Raised MongoError, s)
      else (Returned (), s\<lparr>device_configs := (device_configs s)(did \<mapsto> doc)\<rparr>))"

subsection \<open>The four sink writes\<close>

text \<open>The loop over \<open>sensor_data.metadata.items()\<close>: a number (a Python \<open>bool\<close> is an
  \<open>int\<close>) becomes a field, a string a tag, anything else is skipped.\<close>

definition add_metadata :: "(string \<times> pyobj) list \<Rightarrow> point \<Rightarrow> point" where
  "add_metadata md p0 =
     fold (\<lambda>(k, v) p.
             (case v of
                PNum n \<Rightarrow> p\<lparr>point_fields := point_fields p @ [(''meta_'' @ k, v)]\<rparr>
              | PBool b \<Rightarrow> p\<lparr>point_fields := point_fields p @ [(''meta_'' @ k, v)]\<rparr>
              | PStr t \<Rightarrow> p\<lparr>point_tags := point_tags p @ [(''meta_'' @ k, t)]\<rparr>
              | _ \<Rightarrow> p)) md p0"

definition hash_field :: "SensorData \<Rightarrow> pyobj" where
  "hash_field sd = (case data_hash sd of None \<Rightarrow> PNone | Some h \<Rightarrow> PStr h)"

text \<open>The point that \<open>store_in_influxdb\<close> builds.\<close>

definition reading_point :: "SensorData \<Rightarrow> point" where
  "reading_point sd =
     add_metadata (metadata sd)
       \<lparr>measurement = ''sensor_reading'',
        point_tags = [(''device_id'', device_id sd), (''sensor_type'', sensor_type sd)],
        point_fields = [(''value'', PNum (sensor_value sd)),
                        (''quality'', PNum (quality sd)),
                        (''data_hash'', hash_field sd)],
        point_time = timestamp sd\<rparr>"

definition store_in_influxdb_try :: "call_env \<Rightarrow> SensorData \<Rightarrow> service \<Rightarrow> unit result \<times> service" where
  "store_in_influxdb_try c sd s = influx_write c (reading_point sd) s"

text \<open>\<open>except Exception as e: logger.error(...); raise\<close>: the exception goes on to the caller.\<close>

definition store_in_influxdb :: "call_env \<Rightarrow> SensorData \<Rightarrow> service \<Rightarrow> unit result \<times> service" where
  "store_in_influxdb c sd s =
     (case store_in_influxdb_try c sd s of
        (Returned u, s') \<Rightarrow> (Returned (), s')
      | (Raised e, s') \<Rightarrow> (Raised e, s'))"

definition publish_to_kafka ::
  "call_env \<Rightarrow> string \<Rightarrow> (string \<times> pyobj) list \<Rightarrow> service \<Rightarrow> unit result \<times> service" where
  "publish_to_kafka c tp data s =
     (case kafka_send c tp (dict_get data ''device_id'' PNone) data s of
        (Returned u, s') \<Rightarrow> (Returned (), s')
      | (Raised e, s') \<Rightarrow> (Raised e, s'))"

text \<open>The key and the mapping that \<open>cache_latest_reading\<close> writes.\<close>

definition latest_key :: "SensorData \<Rightarrow> string" where
  "latest_key sd = ''latest:'' @ device_id sd @ '':'' @ sensor_type sd"

definition latest_mapping :: "extern \<Rightarrow> SensorData \<Rightarrow> (string \<times> pyobj) list" where
  "latest_mapping ext sd =
     [(''value'', PNum (sensor_value sd)),
      (''unit'', PStr (unit sd)),
      (''quality'', PNum (quality sd)),
      (''timestamp'', PStr (isoformat ext (timestamp sd))),
      (''data_hash'', hash_field sd)]"

definition cache_latest_reading_try ::
  "extern \<Rightarrow> call_env \<Rightarrow> SensorData \<Rightarrow> service \<Rightarrow> unit result \<times> service" where
  "cache_latest_reading_try ext c sd s =
     (case redis_hset c (latest_key sd) (latest_mapping ext sd) s of
        (Raised e, s') \<Rightarrow> (Raised e, s')
      | (Returned u, s') \<Rightarrow> redis_expire c (latest_key sd) 3600 s')"

text \<open>\<open>except Exception as e: logger.error(...)\<close>: the exception is swallowed.\<close>

definition cache_latest_reading ::
  "extern \<Rightarrow> call_env \<Rightarrow> SensorData \<Rightarrow> service \<Rightarrow> unit result \<times> service" where
  "cache_latest_reading ext c sd s =
     (case cache_latest_reading_try ext c sd s of
        (Returned u, s') \<Rightarrow> (Returned (), s')
      | (Raised e, s') \<Rightarrow> (Returned (), s'))"

text \<open>The document that \<open>store_metadata_in_mongodb\<close> inserts.\<close>

definition audit_document :: "call_env \<Rightarrow> SensorData \<Rightarrow> pyobj" where
  "audit_document c sd =
     PDict [(''device_id'', PStr (device_id sd)),
            (''sensor_type'', PStr (sensor_type sd)),
            (''timestamp'', PDatetime (timestamp sd)),
            (''data_hash'', hash_field sd),
            (''metadata'', PDict (metadata sd)),
            (''stored_at'', PDatetime (utcnow c))]"

definition store_metadata_in_mongodb_try ::
  "call_env \<Rightarrow> SensorData \<Rightarrow> service \<Rightarrow> unit result \<times> service" where
  "store_metadata_in_mongodb_try c sd s = mongo_insert_one c (audit_document c sd) s"

definition store_metadata_in_mongodb ::
  "call_env \<Rightarrow> SensorData \<Rightarrow> service \<Rightarrow> unit result \<times> service" where
  "store_metadata_in_mongodb c sd s =
     (case store_metadata_in_mongodb_try c sd s of
        (Returned u, s') \<Rightarrow> (Returned (), s')
      | (Raised e, s') \<Rightarrow> (Returned (), s'))"

subsection \<open>Processing one sensor message\<close>

text \<open>Lines 156 to 167: decode the payload and build the reading. The default of
  \<open>data.get('timestamp', ...)\<close> is the clock's reading, written and parsed back.\<close>

definition parse_timestamp :: "extern \<Rightarrow> call_env \<Rightarrow> (string \<times> pyobj) list \<Rightarrow> int result" where
  "parse_timestamp ext c d =
     (case map_of d ''timestamp'' of
        None \<Rightarrow> Returned (utcnow c)
      | Some (PStr t) \<Rightarrow>
          (case fromisoformat ext t of None \<Rightarrow> Raised ValueError | Some ts \<Rightarrow> Returned ts)
      | Some other \<Rightarrow> Raised TypeError)"

definition build_sensor_data ::
  "extern \<Rightarrow> call_env \<Rightarrow> string \<Rightarrow> string \<Rightarrow> string \<Rightarrow> SensorData result" where
  "build_sensor_data ext c did st raw =
     (case json_loads ext raw of
        None \<Rightarrow> Raised JSONDecodeError
      | Some (PDict d) \<Rightarrow>
          (case parse_timestamp ext c d of
             Raised e \<Rightarrow> Raised e
           | Returned ts \<Rightarrow>
               (case map_of d ''value'' of
                  None \<Rightarrow> Raised KeyError
                | Some v \<Rightarrow>
                    SensorData_init did st ts v
                      (dict_get d ''unit'' (PStr []))
                      (dict_get d ''quality'' (PNum 1))
                      (dict_get d ''metadata'' (PDict []))))
      | Some other \<Rightarrow> Raised AttributeError)"

text \<open>
  The body of the \<open>try\<close> of \<open>process_sensor_data\<close>. Besides the outcome and the state it
  gives the local variable \<open>sensor_data\<close> as it stands when the body is left (\<open>None\<close> when
  it was never bound), so that theorems can speak about the reading itself.
\<close>

definition process_sensor_data_try ::
  "extern \<Rightarrow> call_env \<Rightarrow> string \<Rightarrow> string \<Rightarrow> string \<Rightarrow> service
     \<Rightarrow> unit result \<times> SensorData option \<times> service" where
  "process_sensor_data_try ext c did st raw s =
     (case build_sensor_data ext c did st raw of
        Raised e \<Rightarrow> (Raised e, None, s)
      | Returned sd0 \<Rightarrow>
          if \<not> fst (validate_sensor_reading ext sd0) then (Returned (), Some sd0, s)
          else
            let sd = sd0\<lparr>data_hash := Some (hash_sensor_data ext sd0)\<rparr> in
            (case store_in_influxdb c sd s of
               (Raised e, s1) \<Rightarrow> (Raised e, Some sd, s1)
             | (Returned u1, s1) \<Rightarrow>
            (case publish_to_kafka c ''sensor-data'' (SensorData_dict sd) s1 of
               (Raised e, s2) \<Rightarrow> (Raised e, Some sd, s2)
             | (Returned u2, s2) \<Rightarrow>
            (case cache_latest_reading ext c sd s2 of
               (Raised e, s3) \<Rightarrow> (Raised e, Some sd, s3)
             | (Returned u3, s3) \<Rightarrow>
            (case store_metadata_in_mongodb c sd s3 of
               (Raised e, s4) \<Rightarrow> (Raised e, Some sd, s4)
             | (Returned u4, s4) \<Rightarrow>
                 (Returned (), Some sd,
                  s4\<lparr>messages_processed := messages_processed s4 + 1,
                     devices_active := finsert did (devices_active s4)\<rparr>))))))"

text \<open>\<open>except Exception as e: logger.error(...); self.messages_failed += 1\<close>.\<close>

definition process_sensor_data ::
  "extern \<Rightarrow> call_env \<Rightarrow> string \<Rightarrow> string \<Rightarrow> string \<Rightarrow> service
     \<Rightarrow> unit result \<times> SensorData option \<times> service" where
  "process_sensor_data ext c did st raw s =
     (case process_sensor_data_try ext c did st raw s of
        (Returned u, sd, s') \<Rightarrow> (Returned (), sd, s')
      | (Raised e, sd, s') \<Rightarrow> (Returned (), sd, s'\<lparr>messages_failed := messages_failed s' + 1\<rparr>))"

subsection \<open>Device status and device configuration\<close>

text \<open>The mapping that \<open>process_device_status\<close> writes.\<close>

definition status_mapping :: "extern \<Rightarrow> call_env \<Rightarrow> (string \<times> pyobj) list \<Rightarrow> (string \<times> pyobj) list" where
  "status_mapping ext c d =
     [(''status'', dict_get d ''status'' (PStr ''unknown'')),
      (''battery_level'', dict_get d ''battery_level'' (PNum 0)),
      (''signal_strength'', dict_get d ''signal_strength'' (PNum 0)),
      (''last_seen'', PStr (isoformat ext (utcnow c))),
      (''firmware_version'', dict_get d ''firmware_version'' (PStr [])),
      (''ip_address'', dict_get d ''ip_address'' (PStr []))]"

definition process_device_status_try ::
  "extern \<Rightarrow> call_env \<Rightarrow> string \<Rightarrow> string \<Rightarrow> service \<Rightarrow> unit result \<times> service" where
  "process_device_status_try ext c did raw s =
     (case json_loads ext raw of
        None \<Rightarrow> (Raised JSONDecodeError, s)
      | Some (PDict d) \<Rightarrow>
          (case redis_hset c (''device_status:'' @ did) (status_mapping ext c d) s of
             (Raised e, s1) \<Rightarrow> (Raised e, s1)
           | (Returned u, s1) \<Rightarrow>
               publish_to_kafka c ''device-status''
                 (dict_merge [(''device_id'', PStr did),
                              (''timestamp'', PStr (isoformat ext (utcnow c)))] d) s1)
      | Some other \<Rightarrow> (Raised AttributeError, s))"

definition process_device_status ::
  "extern \<Rightarrow> call_env \<Rightarrow> string \<Rightarrow> string \<Rightarrow> service \<Rightarrow> unit result \<times> service" where
  "process_device_status ext c did raw s =
     (case process_device_status_try ext c did raw s of
        (Returned u, s') \<Rightarrow> (Returned (), s')
      | (Raised e, s') \<Rightarrow> (Returned (), s'))"

definition process_device_config_try ::
  "extern \<Rightarrow> call_env \<Rightarrow> string \<Rightarrow> string \<Rightarrow> service \<Rightarrow> unit result \<times> service" where
  "process_device_config_try ext c did raw s =
     (case json_loads ext raw of
        None \<Rightarrow> (Raised JSONDecodeError, s)
      | Some data \<Rightarrow>
          mongo_update_one c did
            (PDict [(''device_id'', PStr did),
                    (''config'', data),
                    (''updated_at'', PDatetime (utcnow c))]) s)"

definition process_device_config ::
  "extern \<Rightarrow> call_env \<Rightarrow> string \<Rightarrow> string \<Rightarrow> service \<Rightarrow> unit result \<times> service" where
  "process_device_config ext c did raw s =
     (case process_device_config_try ext c did raw s of
        (Returned u, s') \<Rightarrow> (Returned (), s')
      | (Raised e, s') \<Rightarrow> (Returned (), s'))"

subsection \<open>The message handler\<close>

text \<open>
  \<open>asyncio.create_task(coroutine)\<close> schedules a coroutine of the service; the handler
  gives the scheduled task back, and \<open>run_task\<close> is the event loop running it to its
  end. \<open>create_task\<close> itself raises when there is no running event loop.
\<close>

datatype task =
    ProcessSensorData string string string
  | ProcessDeviceStatus string string
  | ProcessDeviceConfig string string

definition create_task :: "call_env \<Rightarrow> task \<Rightarrow> task option result" where
  "create_task c t = (if create_task_fails c then Raised RuntimeError else Returned (Some t))"

definition on_mqtt_message_try :: "call_env \<Rightarrow> string \<Rightarrow> string \<Rightarrow> task option result" where
  "on_mqtt_message_try c tp raw =
     (let topic_parts = split CHR ''/'' tp in
      if length topic_parts \<ge> 4 \<and> topic_parts ! 3 = ''data'' then
        (let did = topic_parts ! 2;
             st = (if length topic_parts > 4 then topic_parts ! 3 else ''unknown'')
         in create_task c (ProcessSensorData did st raw))
      else if length topic_parts \<ge> 3 \<and> topic_parts ! 2 = ''status'' then
        create_task c (ProcessDeviceStatus (topic_parts ! 1) raw)
      else if length topic_parts \<ge> 3 \<and> topic_parts ! 2 = ''config'' then
        create_task c (ProcessDeviceConfig (topic_parts ! 1) raw)
      else Returned None)"

definition on_mqtt_message ::
  "call_env \<Rightarrow> string \<Rightarrow> string \<Rightarrow> service \<Rightarrow> task option result \<times> service" where
  "on_mqtt_message c tp raw s =
     (case on_mqtt_message_try c tp raw of
        Returned t \<Rightarrow> (Returned t, s)
      | Raised e \<Rightarrow> (Returned None, s\<lparr>messages_failed := messages_failed s + 1\<rparr>))"

definition run_task :: "extern \<Rightarrow> call_env \<Rightarrow> task \<Rightarrow> service \<Rightarrow> unit result \<times> service" where
  "run_task ext c t s =
     (case t of
        ProcessSensorData did st raw \<Rightarrow>
          (case process_sensor_data ext c did st raw s of (r, sd, s') \<Rightarrow> (r, s'))
      | ProcessDeviceStatus did raw \<Rightarrow> process_device_status ext c did raw s
      | ProcessDeviceConfig did raw \<Rightarrow> process_device_config ext c did raw s)"

text \<open>One inbound message from arrival to the end of the task it spawned.\<close>

definition handle_message ::
  "extern \<Rightarrow> call_env \<Rightarrow> string \<Rightarrow> string \<Rightarrow> service \<Rightarrow> unit result \<times> service" where
  "handle_message ext c tp raw s =
     (case on_mqtt_message c tp raw s of
        (Returned (Some t), s') \<Rightarrow> run_task ext c t s'
      | (Returned None, s') \<Rightarrow> (Returned (), s')
      | (Raised e, s') \<Rightarrow> (Raised e, s'))"

text \<open>
  The subjects that section 4.1 of the specification calls routable, in its own words and
  apart from the handler: five segments \<open>domain/sensors/{deviceId}/{sensorType}/data\<close>, or
  four segments \<open>domain/devices/{deviceId}/status\<close> or \<open>domain/devices/{deviceId}/config\<close>.
  The first segment (\<open>domain\<close>, \<open>carbon\<close> in the subscriptions) is left open. Every other
  subject is unroutable: a wrong number of segments, or an unknown second or last segment.
\<close>

definition spec_routable :: "string \<Rightarrow> bool" where
  "spec_routable tp =
     (case split CHR ''/'' tp of
        [d, kind, did, st, suffix] \<Rightarrow> kind = ''sensors'' \<and> suffix = ''data''
      | [d, kind, did, suffix] \<Rightarrow>
          kind = ''devices'' \<and> (suffix = ''status'' \<or> suffix = ''config'')
      | _ \<Rightarrow> False)"

subsection \<open>The statistics reporter\<close>

definition success_rate :: "nat \<Rightarrow> nat \<Rightarrow> rat" where
  "success_rate p f = (if p + f > 0 then of_nat p / of_nat (p + f) else 0)"

definition stats_snapshot :: "extern \<Rightarrow> call_env \<Rightarrow> service \<Rightarrow> (string \<times> pyobj) list" where
  "stats_snapshot ext c s =
     [(''timestamp'', PStr (isoformat ext (utcnow c))),
      (''messages_processed'', PNum (of_nat (messages_processed s))),
      (''messages_failed'', PNum (of_nat (messages_failed s))),
      (''active_devices'', PNum (of_nat (fcard (devices_active s)))),
      (''success_rate'', PNum (success_rate (messages_processed s) (messages_failed s)))]"

text \<open>The body of the \<open>try\<close> inside the loop, after the sleep: publish, then reset.
  The stored string \<open>json.dumps(stats)\<close> is represented by the dict it encodes.\<close>

definition report_statistics_try :: "extern \<Rightarrow> call_env \<Rightarrow> service \<Rightarrow> unit result \<times> service" where
  "report_statistics_try ext c s =
     (case redis_set c ''ingestion_stats'' (PDict (stats_snapshot ext c s)) 3600 s of
        (Raised e, s1) \<Rightarrow> (Raised e, s1)
      | (Returned u, s1) \<Rightarrow>
          (Returned (), s1\<lparr>messages_processed := 0, messages_failed := 0,
                            devices_active := {||}\<rparr>))"

definition report_statistics :: "extern \<Rightarrow> call_env \<Rightarrow> service \<Rightarrow> unit result \<times> service" where
  "report_statistics ext c s =
     (case report_statistics_try ext c s of
        (Returned u, s') \<Rightarrow> (Returned (), s')
      | (Raised e, s') \<Rightarrow> (Returned (), s'))"

text \<open>\<open>while self.running\<close>, one element of the list for each time the task wakes from
  its sleep; the list is the finite part of the run that is observed.\<close>

fun run_statistics_reporter :: "extern \<Rightarrow> call_env list \<Rightarrow> service \<Rightarrow> service" where
  "run_statistics_reporter ext [] s = s"
| "run_statistics_reporter ext (c # cs) s =
     (if running s then run_statistics_reporter ext cs (snd (report_statistics ext c s))
      else s)"

subsection \<open>Start-up, the run loop and shutdown\<close>

text \<open>Whether each connection step of \<open>initialize\<close> raises.\<close>

record conn_env =
  influx_init_fails :: bool
  redis_ping_fails :: bool
  mongo_ping_fails :: bool
  kafka_init_fails :: bool
  mqtt_connect_fails :: bool

text \<open>The steps in the order of the source. The Redis, MongoDB and MQTT client objects
  are assigned before the call that can fail (\<open>ping\<close>, \<open>connect\<close>); the InfluxDB client
  and the Kafka producer are assigned only when their constructor returned.\<close>

definition initialize_try :: "conn_env \<Rightarrow> service \<Rightarrow> unit result \<times> service" where
  "initialize_try ce s =
     (if influx_init_fails ce then (Raised InfluxError, s)
      else let s1 = s\<lparr>influxdb_client := Open\<rparr>;
               s2 = s1\<lparr>redis_client := Open\<rparr> in
      if redis_ping_fails ce then (Raised RedisError, s2)
      else let s3 = s2\<lparr>mongodb_client := Open\<rparr> in
      if mongo_ping_fails ce then (Raised MongoError, s3)
      else if kafka_init_fails ce then (Raised KafkaError, s3)
      else let s4 = s3\<lparr>kafka_producer := Open\<rparr>;
               s5 = s4\<lparr>mqtt_client := Open\<rparr> in
      if mqtt_connect_fails ce then (Raised MqttError, s5)
      else (Returned (), s5\<lparr>running := True\<rparr>))"

definition initialize :: "conn_env \<Rightarrow> service \<Rightarrow> unit result \<times> service" where
  "initialize ce s =
     (case initialize_try ce s of
        (Returned u, s') \<Rightarrow> (Returned (), s')
      | (Raised e, s') \<Rightarrow> (Raised e, s'))"

definition on_mqtt_connect :: "int \<Rightarrow> service \<Rightarrow> service" where
  "on_mqtt_connect rc s =
     (if rc = 0 then
        s\<lparr>subscriptions := subscriptions s @
             [''carbon/sensors/+/+/data'', ''carbon/devices/+/status'', ''carbon/devices/+/config'']\<rparr>
      else s)"

text \<open>The callbacks of the MQTT client are called by its network loop, which runs only
  after \<open>loop_start()\<close>: the broker's answer to the connection request, and an
  inbound message.\<close>

definition deliver_connack :: "int \<Rightarrow> service \<Rightarrow> service" where
  "deliver_connack rc s = (if mqtt_loop s then on_mqtt_connect rc s else s)"

definition deliver_message ::
  "call_env \<Rightarrow> string \<Rightarrow> string \<Rightarrow> service \<Rightarrow> task option result \<times> service" where
  "deliver_message c tp raw s =
     (if mqtt_loop s then on_mqtt_message c tp raw s else (Returned None, s))"

definition close_client :: "client \<Rightarrow> client" where
  "close_client cl = (if cl = Absent then Absent else Closed)"

definition shutdown :: "service \<Rightarrow> service" where
  "shutdown s =
     s\<lparr>running := False,
       mqtt_client := close_client (mqtt_client s),
       kafka_producer := close_client (kafka_producer s),
       influxdb_client := close_client (influxdb_client s),
       redis_client := close_client (redis_client s),
       mongodb_client := close_client (mongodb_client s)\<rparr>"

text \<open>\<open>while self.running: await asyncio.sleep(1)\<close>. Nothing in the loop changes the
  flag; a loop that does not end has the value \<open>None\<close>.\<close>

partial_function (option) keep_running :: "service \<Rightarrow> service option" where
  "keep_running s = (if running s then keep_running s else Some s)"

text \<open>\<open>run\<close>: a failure of \<open>initialize\<close> is logged and raised again, and \<open>shutdown\<close> runs in
  the \<open>finally\<close> clause on every path.\<close>

definition run :: "conn_env \<Rightarrow> service \<Rightarrow> (unit result \<times> service) option" where
  "run ce s =
     (case initialize ce s of
        (Raised e, s1) \<Rightarrow> Some (Raised e, shutdown s1)
      | (Returned u, s1) \<Rightarrow>
          (let s2 = s1\<lparr>mqtt_loop := True\<rparr>;
               s3 = s2\<lparr>stats_task := True\<rparr> in
           case keep_running s3 of
             None \<Rightarrow> None
           | Some s4 \<Rightarrow> Some (Returned (), shutdown (s4\<lparr>stats_task := False\<rparr>))))"

subsection \<open>The fingerprint\<close>

text \<open>
  Modelled from the spec: \<open>hash_sensor_data\<close> (utils/crypto.py) is not among the sources.
  Section 4.3 of the specification: a deterministic hash over a canonical,
  order-independent representation of the device identifier, the sensor type, the
  timestamp, the value and the unit, the metadata left out. The canonical
  representation lists the five fields by name in alphabetical order; the digest
  function is a parameter.
\<close>

definition canonical_fields :: "SensorData \<Rightarrow> (string \<times> pyobj) list" where
  "canonical_fields sd =
     [(''device_id'', PStr (device_id sd)),
      (''sensor_type'', PStr (sensor_type sd)),
      (''timestamp'', PDatetime (timestamp sd)),
      (''unit'', PStr (unit sd)),
      (''value'', PNum (sensor_value sd))]"

definition hash_sensor_data_spec :: "((string \<times> pyobj) list \<Rightarrow> string) \<Rightarrow> SensorData \<Rightarrow> string" where
  "hash_sensor_data_spec digest sd = digest (canonical_fields sd)"

subsection \<open>Concrete collaborators for the examples\<close>

text \<open>The payloads \<open>{"value": 450}\<close>, \<open>{"value": -5}\<close>, \<open>{"status": "online"}\<close>,
  \<open>{"value": 450, "unit": "ppm"}\<close> and \<open>{"unit": "ppm", "value": 450}\<close>, a decoder that
  knows these five, and a validator with the bounds 300 to 5000 of the sensor type \<open>co2\<close>.\<close>

definition value_payload :: string where
  "value_payload = ''{'' @ [CHR 0x22] @ ''value'' @ [CHR 0x22] @ '': 450}''"

definition low_payload :: string where
  "low_payload = ''{'' @ [CHR 0x22] @ ''value'' @ [CHR 0x22] @ '': -5}''"

definition status_payload :: string where
  "status_payload =
     ''{'' @ [CHR 0x22] @ ''status'' @ [CHR 0x22] @ '': '' @ [CHR 0x22] @ ''online'' @ [CHR 0x22] @ ''}''"

definition ordered_payload :: string where
  "ordered_payload =
     ''{'' @ [CHR 0x22] @ ''value'' @ [CHR 0x22] @ '': 450, '' @ [CHR 0x22] @ ''unit'' @ [CHR 0x22]
       @ '': '' @ [CHR 0x22] @ ''ppm'' @ [CHR 0x22] @ ''}''"

definition swapped_payload :: string where
  "swapped_payload =
     ''{'' @ [CHR 0x22] @ ''unit'' @ [CHR 0x22] @ '': '' @ [CHR 0x22] @ ''ppm'' @ [CHR 0x22]
       @ '', '' @ [CHR 0x22] @ ''value'' @ [CHR 0x22] @ '': 450}''"

definition example_extern :: extern where
  "example_extern =
     \<lparr>json_loads = (\<lambda>raw. if raw = value_payload then Some (PDict [(''value'', PNum 450)])
                           else if raw = low_payload then Some (PDict [(''value'', PNum (- 5))])
                           else if raw = status_payload
                           then Some (PDict [(''status'', PStr ''online'')])
                           else if raw = ordered_payload
                           then Some (PDict [(''value'', PNum 450), (''unit'', PStr ''ppm'')])
                           else if raw = swapped_payload
                           then Some (PDict [(''unit'', PStr ''ppm''), (''value'', PNum 450)])
                           else None),
      fromisoformat = (\<lambda>t. None),
      isoformat = (\<lambda>ts. if ts = 7 then ''1970-01-01T00:00:07'' else ''1970-01-01T00:00:00''),
      validate_sensor_reading =
        (\<lambda>sd. if 300 \<le> sensor_value sd \<and> sensor_value sd \<le> 5000 then (True, [])
              else (False, [''out_of_range''])),
      hash_sensor_data = (\<lambda>sd. ''h:'' @ device_id sd)\<rparr>"

definition quiet :: call_env where
  "quiet =
     \<lparr>utcnow = 7, create_task_fails = False, influx_write_fails = False,
      kafka_send_fails = False, redis_hset_fails = False, redis_expire_fails = False,
      redis_set_fails = False, mongo_insert_fails = False, mongo_update_fails = False\<rparr>"

definition influx_down :: call_env where
  "influx_down = quiet\<lparr>influx_write_fails := True\<rparr>"

definition kafka_down :: call_env where
  "kafka_down = quiet\<lparr>kafka_send_fails := True\<rparr>"

definition cache_write_down :: call_env where
  "cache_write_down = quiet\<lparr>redis_hset_fails := True\<rparr>"

definition stats_write_down :: call_env where
  "stats_write_down = quiet\<lparr>redis_set_fails := True\<rparr>"

text \<open>The readings built from the first two payloads for device \<open>dev1\<close>, sensor type \<open>co2\<close>,
  when the clock reads 7.\<close>

definition example_reading :: SensorData where
  "example_reading =
     \<lparr>device_id = ''dev1'', sensor_type = ''co2'', timestamp = 7, sensor_value = 450,
      unit = [], quality = 1, metadata = [], data_hash = None\<rparr>"

definition low_reading :: SensorData where
  "low_reading = example_reading\<lparr>sensor_value := - 5\<rparr>"

text \<open>A service in the middle of a window: ten messages processed, two failed, one
  active device.\<close>

definition busy_service :: service where
  "busy_service =
     new_service\<lparr>running := True, messages_processed := 10, messages_failed := 2,
                 devices_active := {|''dev1''|}\<rparr>"

definition example_digest :: "(string \<times> pyobj) list \<Rightarrow> string" where
  "example_digest fs =
     concat (map (\<lambda>(k, v). k @ ''='' @ (case v of PStr x \<Rightarrow> x | _ \<Rightarrow> ''#'') @ '';'') fs)"

definition all_up :: conn_env where
  "all_up =
     \<lparr>influx_init_fails = False, redis_ping_fails = False, mongo_ping_fails = False,
      kafka_init_fails = False, mqtt_connect_fails = False\<rparr>"

definition cache_down :: conn_env where
  "cache_down = all_up\<lparr>redis_ping_fails := True\<rparr>"

section \<open>Routing of inbound subjects\<close>

lemma split_segment: "c \<notin> set a \<Longrightarrow> split c (a @ c # r) = a # split c r"
  by (induction a) auto

lemma split_sensor_topic:
  assumes "CHR ''/'' \<notin> set pre" "CHR ''/'' \<notin> set did" "CHR ''/'' \<notin> set st"
  shows "split CHR ''/'' (pre @ ''/sensors/'' @ did @ ''/'' @ st @ ''/data'')
           = [pre, ''sensors'', did, st, ''data'']"
proof -
  have "split CHR ''/'' (st @ ''/data'') = [st, ''data'']"
    using assms(3) split_segment[of "CHR ''/''" st "''data''"] by simp
  then have "split CHR ''/'' (did @ ''/'' @ st @ ''/data'') = [did, st, ''data'']"
    using assms(2) split_segment[of "CHR ''/''" did "st @ ''/data''"] by simp
  then have "split CHR ''/'' (''sensors/'' @ did @ ''/'' @ st @ ''/data'')
               = [''sensors'', did, st, ''data'']"
    using split_segment[of "CHR ''/''" "''sensors''" "did @ ''/'' @ st @ ''/data''"] by simp
  then show ?thesis
    using assms(1) split_segment[of "CHR ''/''" pre "''sensors/'' @ did @ ''/'' @ st @ ''/data''"]
    by simp
qed

lemma split_status_topic:
  assumes "CHR ''/'' \<notin> set pre" "CHR ''/'' \<notin> set did"
  shows "split CHR ''/'' (pre @ ''/devices/'' @ did @ ''/status'')
           = [pre, ''devices'', did, ''status'']"
proof -
  have "split CHR ''/'' (did @ ''/status'') = [did, ''status'']"
    using assms(2) split_segment[of "CHR ''/''" did "''status''"] by simp
  then have "split CHR ''/'' (''devices/'' @ did @ ''/status'') = [''devices'', did, ''status'']"
    using split_segment[of "CHR ''/''" "''devices''" "did @ ''/status''"] by simp
  then show ?thesis
    using assms(1) split_segment[of "CHR ''/''" pre "''devices/'' @ did @ ''/status''"] by simp
qed

text \<open>
  Claim C3 says that a subject \<open>domain/sensors/{deviceId}/{sensorType}/data\<close> is handed to
  sensor-data processing with the device identifier of its third segment and the sensor
  type of its fourth. The handler compares the fourth segment (index 3) with \<open>data\<close>,
  where the subject has the sensor type; the word \<open>data\<close> is the fifth. So for every
  subject of that shape whose sensor type is not the word \<open>data\<close> (and whose device
  identifier is not \<open>status\<close> or \<open>config\<close>) no branch of the handler matches: nothing is
  spawned and the state is as before.
\<close>

theorem sensor_subject_not_routed:
  assumes "CHR ''/'' \<notin> set pre" "CHR ''/'' \<notin> set did" "CHR ''/'' \<notin> set st"
    and "st \<noteq> ''data''" "did \<noteq> ''status''" "did \<noteq> ''config''"
  shows "on_mqtt_message c (pre @ ''/sensors/'' @ did @ ''/'' @ st @ ''/data'') raw s
           = (Returned None, s)"
  using assms(4-6) split_sensor_topic[OF assms(1-3)]
  by (simp add: on_mqtt_message_def on_mqtt_message_try_def)

theorem sensor_subject_not_routed_witness:
  "CHR ''/'' \<notin> set ''carbon'' \<and> CHR ''/'' \<notin> set ''dev1'' \<and> CHR ''/'' \<notin> set ''co2''
   \<and> ''co2'' \<noteq> ''data'' \<and> ''dev1'' \<noteq> ''status'' \<and> ''dev1'' \<noteq> ''config''
   \<and> on_mqtt_message quiet ''carbon/sensors/dev1/co2/data'' value_payload new_service
       = (Returned None, new_service)"
  using sensor_subject_not_routed[of "''carbon''" "''dev1''" "''co2''" quiet value_payload new_service]
  by simp

text \<open>\<open>process_device_status\<close> itself, called with a device identifier and a payload that
  decodes to a dict, writes the six fields under \<open>device_status:{deviceId}\<close>, with
  \<open>last_seen\<close> read from the clock.\<close>

lemma process_device_status_stores:
  assumes l: "json_loads ext raw = Some (PDict d)"
      and ok: "\<not> redis_hset_fails c"
      and fresh: "redis_db s (''device_status:'' @ did) = None"
  shows "redis_db (snd (process_device_status ext c did raw s)) (''device_status:'' @ did)
           = Some (RHash (map_of (status_mapping ext c d)))
       \<and> dom (map_of (status_mapping ext c d))
           = {''status'', ''battery_level'', ''signal_strength'', ''last_seen'',
              ''firmware_version'', ''ip_address''}
       \<and> map_of (status_mapping ext c d) ''last_seen'' = Some (PStr (isoformat ext (utcnow c)))"
proof -
  have "redis_db (snd (process_device_status ext c did raw s)) (''device_status:'' @ did)
           = Some (RHash (map_of (status_mapping ext c d)))"
    using l ok fresh
    by (simp add: process_device_status_def process_device_status_try_def redis_hset_def
          publish_to_kafka_def kafka_send_def split: prod.splits result.splits)
  moreover have "dom (map_of (status_mapping ext c d))
           = {''status'', ''battery_level'', ''signal_strength'', ''last_seen'',
              ''firmware_version'', ''ip_address''}"
    by (auto simp: status_mapping_def dom_def split: if_splits) 
  moreover have "map_of (status_mapping ext c d) ''last_seen'' = Some (PStr (isoformat ext (utcnow c)))"
    by (simp add: status_mapping_def)
  ultimately show ?thesis by blast
qed

text \<open>
  Claim C4 says that a message on \<open>domain/devices/{deviceId}/status\<close> stores the status map
  at the key \<open>device_status:{deviceId}\<close>. The handler compares the third segment (index 2)
  with \<open>status\<close>, where the subject has the device identifier. So for every subject of
  that shape whose device identifier is not \<open>status\<close> or \<open>config\<close> the message is dropped:
  \<open>process_device_status\<close> is not called and the state, the cache included, is as before.
\<close>

theorem status_subject_not_routed:
  assumes "CHR ''/'' \<notin> set pre" "CHR ''/'' \<notin> set did"
    and "did \<noteq> ''status''" "did \<noteq> ''config''"
  shows "handle_message ext c (pre @ ''/devices/'' @ did @ ''/status'') raw s = (Returned (), s)"
  using assms(3-4) split_status_topic[OF assms(1-2)]
  by (simp add: handle_message_def on_mqtt_message_def on_mqtt_message_try_def)

theorem status_subject_not_routed_witness:
  "CHR ''/'' \<notin> set ''carbon'' \<and> CHR ''/'' \<notin> set ''dev1''
   \<and> ''dev1'' \<noteq> ''status'' \<and> ''dev1'' \<noteq> ''config''
   \<and> handle_message example_extern quiet ''carbon/devices/dev1/status'' status_payload new_service
       = (Returned (), new_service)
   \<and> redis_db new_service ''device_status:dev1'' = None"
  using status_subject_not_routed[of "''carbon''" "''dev1''" example_extern quiet
          status_payload new_service]
  by (simp add: new_service_def)

text \<open>
  Claim C6 says that a subject of none of the three shapes, such as \<open>domain/unknown/x\<close>, is
  dropped, counted as a failure, and raises nothing. The handler has no branch for such a
  subject and counts a failure only in its exception handler, so the counter stays as it
  is: on \<open>carbon/unknown/x\<close> it is not incremented.
\<close>

theorem unroutable_subject_counterexample:
  "\<not> spec_routable ''carbon/unknown/x''
   \<and> on_mqtt_message quiet ''carbon/unknown/x'' value_payload new_service
       = (Returned None, new_service)
   \<and> messages_failed (snd (on_mqtt_message quiet ''carbon/unknown/x'' value_payload new_service))
       \<noteq> messages_failed new_service + 1"
  by (simp add: spec_routable_def on_mqtt_message_def on_mqtt_message_try_def)

text \<open>
  Claim C6 as amended: for every inbound subject that matches none of the three routable
  shapes of the specification (for example \<open>domain/unknown/x\<close>), the message handler
  raises nothing into the subscription loop and does not count the subject as a failure:
  its failure counter changes only when \<open>asyncio.create_task\<close> raises, and then by one;
  otherwise the handler leaves the state of the service as it was. Whether the handler
  spawns processing for such a subject is not part of the statement.
\<close>

theorem unroutable_subject_not_counted:
  assumes u: "\<not> spec_routable tp"
  shows "(\<exists>t. fst (on_mqtt_message c tp raw s) = Returned t)
     \<and> (messages_failed (snd (on_mqtt_message c tp raw s)) \<noteq> messages_failed s
          \<longrightarrow> create_task_fails c)
     \<and> (\<not> create_task_fails c \<longrightarrow> snd (on_mqtt_message c tp raw s) = s)
     \<and> (snd (on_mqtt_message c tp raw s) = s
          \<or> on_mqtt_message c tp raw s
               = (Returned None, s\<lparr>messages_failed := messages_failed s + 1\<rparr>))"
proof (cases "on_mqtt_message_try c tp raw")
  case (Returned t)
  then show ?thesis by (simp add: on_mqtt_message_def)
next
  case (Raised e)
  then have "create_task_fails c"
    by (auto simp: on_mqtt_message_try_def create_task_def Let_def split: if_splits)
  with Raised show ?thesis by (simp add: on_mqtt_message_def)
qed

theorem unroutable_subject_not_counted_witness:
  "\<not> spec_routable ''carbon/unknown/x'' \<and> \<not> spec_routable ''x/y/z/data''
   \<and> \<not> spec_routable ''carbon/unknown/status''
   \<and> spec_routable ''carbon/sensors/dev1/co2/data''
   \<and> spec_routable ''carbon/devices/dev1/status''
   \<and> \<not> create_task_fails quiet
   \<and> (\<exists>t. fst (on_mqtt_message quiet ''carbon/unknown/x'' value_payload new_service) = Returned t)
   \<and> snd (on_mqtt_message quiet ''carbon/unknown/x'' value_payload new_service) = new_service
   \<and> snd (on_mqtt_message quiet ''x/y/z/data'' value_payload new_service) = new_service
   \<and> snd (on_mqtt_message quiet ''carbon/unknown/status'' status_payload new_service)
       = new_service"
proof -
  have u: "\<not> spec_routable ''carbon/unknown/x''" "\<not> spec_routable ''x/y/z/data''"
    "\<not> spec_routable ''carbon/unknown/status''"
    by (simp_all add: spec_routable_def)
  have r: "spec_routable ''carbon/sensors/dev1/co2/data''"
    "spec_routable ''carbon/devices/dev1/status''"
    by (simp_all add: spec_routable_def)
  have q: "\<not> create_task_fails quiet" by (simp add: quiet_def)
  from unroutable_subject_not_counted[OF u(1), of quiet value_payload new_service] q
  have a: "(\<exists>t. fst (on_mqtt_message quiet ''carbon/unknown/x'' value_payload new_service)
                 = Returned t)
     \<and> snd (on_mqtt_message quiet ''carbon/unknown/x'' value_payload new_service) = new_service"
    by blast
  from unroutable_subject_not_counted[OF u(2), of quiet value_payload new_service] q
  have b: "snd (on_mqtt_message quiet ''x/y/z/data'' value_payload new_service) = new_service"
    by blast
  from unroutable_subject_not_counted[OF u(3), of quiet status_payload new_service] q
  have c: "snd (on_mqtt_message quiet ''carbon/unknown/status'' status_payload new_service)
             = new_service"
    by blast
  from u r q a b c show ?thesis by blast
qed

section \<open>Processing a sensor message\<close>

subsection \<open>What each sink write does\<close>

lemma build_sensor_data_fresh:
  "build_sensor_data ext c did st raw = Returned sd0
   \<Longrightarrow> data_hash sd0 = None \<and> device_id sd0 = did \<and> sensor_type sd0 = st"
  by (auto simp: build_sensor_data_def SensorData_init_def
           split: option.splits pyobj.splits result.splits)

lemma store_in_influxdb_eq:
  "store_in_influxdb c sd s =
     (if influx_write_fails c then (Raised InfluxError, s)
      else (Returned (), s\<lparr>influx_points := influx_points s @ [reading_point sd]\<rparr>))"
  by (simp add: store_in_influxdb_def store_in_influxdb_try_def influx_write_def)

lemma publish_to_kafka_eq:
  "publish_to_kafka c tp d s =
     (if kafka_send_fails c then (Raised KafkaError, s)
      else (Returned (), s\<lparr>kafka_log := kafka_log s @
              [\<lparr>topic = tp, key = dict_get d ''device_id'' PNone, payload = d\<rparr>]\<rparr>))"
  by (simp add: publish_to_kafka_def kafka_send_def)

lemma store_metadata_in_mongodb_eq:
  "store_metadata_in_mongodb c sd s =
     (Returned (), if mongo_insert_fails c then s
                   else s\<lparr>sensor_metadata := sensor_metadata s @ [audit_document c sd]\<rparr>)"
  by (simp add: store_metadata_in_mongodb_def store_metadata_in_mongodb_try_def mongo_insert_one_def)

lemma cache_latest_reading_returns:
  "fst (cache_latest_reading ext c sd s) = Returned ()"
  by (simp add: cache_latest_reading_def split: prod.splits result.splits)

lemma cache_latest_reading_frame:
  "cache_latest_reading ext c sd s = (r, s') \<Longrightarrow>
     r = Returned () \<and> s' = s\<lparr>redis_db := redis_db s', redis_ttl := redis_ttl s'\<rparr>"
  by (auto simp: cache_latest_reading_def cache_latest_reading_try_def redis_hset_def
        redis_expire_def split: prod.splits result.splits if_splits option.splits redis_value.splits)

lemma cache_latest_reading_hset_fails:
  "redis_hset_fails c \<Longrightarrow> cache_latest_reading ext c sd s = (Returned (), s)"
  by (simp add: cache_latest_reading_def cache_latest_reading_try_def redis_hset_def)

lemma cache_latest_reading_fresh_key:
  "\<not> redis_hset_fails c \<Longrightarrow> redis_db s (latest_key sd) = None \<Longrightarrow>
   redis_db (snd (cache_latest_reading ext c sd s))
     = (redis_db s)(latest_key sd \<mapsto> RHash (map_of (latest_mapping ext sd)))"
  by (simp add: cache_latest_reading_def cache_latest_reading_try_def redis_hset_def
        redis_expire_def split: prod.splits result.splits)

lemma add_metadata_fields: "\<exists>extra. point_fields (add_metadata md p) = point_fields p @ extra"
proof (induction md arbitrary: p)
  case Nil
  then show ?case by (simp add: add_metadata_def)
next
  case (Cons kv md)
  obtain k v where kv: "kv = (k, v)" by (cases kv)
  have step: "add_metadata (kv # md) p =
      add_metadata md (case v of
                PNum n \<Rightarrow> p\<lparr>point_fields := point_fields p @ [(''meta_'' @ k, v)]\<rparr>
              | PBool b \<Rightarrow> p\<lparr>point_fields := point_fields p @ [(''meta_'' @ k, v)]\<rparr>
              | PStr t \<Rightarrow> p\<lparr>point_tags := point_tags p @ [(''meta_'' @ k, t)]\<rparr>
              | _ \<Rightarrow> p)"
    by (simp add: add_metadata_def kv)
  show ?case
    unfolding step
    using Cons.IH[of "p\<lparr>point_fields := point_fields p @ [(''meta_'' @ k, v)]\<rparr>"]
          Cons.IH[of "p\<lparr>point_tags := point_tags p @ [(''meta_'' @ k, the_str)]\<rparr>" for the_str]
          Cons.IH[of p]
    by (cases v) auto
qed

lemma reading_point_hash:
  "map_of (point_fields (reading_point sd)) ''data_hash'' = Some (hash_field sd)"
proof -
  obtain extra where "point_fields (reading_point sd) =
      [(''value'', PNum (sensor_value sd)), (''quality'', PNum (quality sd)),
       (''data_hash'', hash_field sd)] @ extra"
    using add_metadata_fields[of "metadata sd" "\<lparr>measurement = ''sensor_reading'',
        point_tags = [(''device_id'', device_id sd), (''sensor_type'', sensor_type sd)],
        point_fields = [(''value'', PNum (sensor_value sd)),
                        (''quality'', PNum (quality sd)),
                        (''data_hash'', hash_field sd)],
        point_time = timestamp sd\<rparr>"] by (auto simp: reading_point_def)
  then show ?thesis by simp
qed

lemma clear_hash: "data_hash r = None \<Longrightarrow> r\<lparr>data_hash := None\<rparr> = r"
  by (cases r) simp

subsection \<open>The three ways through \<open>process_sensor_data\<close>\<close>

lemma process_rejected:
  assumes b: "build_sensor_data ext c did st raw = Returned sd0"
      and v: "\<not> fst (validate_sensor_reading ext sd0)"
  shows "process_sensor_data ext c did st raw s = (Returned (), Some sd0, s)"
  using b v by (simp add: process_sensor_data_def process_sensor_data_try_def)

lemma process_unbuilt:
  assumes b: "build_sensor_data ext c did st raw = Raised e"
  shows "process_sensor_data ext c did st raw s
           = (Returned (), None, s\<lparr>messages_failed := messages_failed s + 1\<rparr>)"
  using b by (simp add: process_sensor_data_def process_sensor_data_try_def)

lemma cache_latest_reading_redis:
  "redis_db (snd (cache_latest_reading ext c sd s)) = redis_db s
   \<or> (\<exists>hm. redis_db (snd (cache_latest_reading ext c sd s))
               = (redis_db s)(latest_key sd \<mapsto> RHash hm)
            \<and> hm ''data_hash'' = Some (hash_field sd))"
  by (auto simp: cache_latest_reading_def cache_latest_reading_try_def redis_hset_def
        redis_expire_def latest_mapping_def map_add_def
        split: prod.splits result.splits if_splits option.splits redis_value.splits)

lemma process_validated:
  assumes b: "build_sensor_data ext c did st raw = Returned sd0"
      and v: "fst (validate_sensor_reading ext sd0)"
  shows "process_sensor_data ext c did st raw s =
    (let sd = sd0\<lparr>data_hash := Some (hash_sensor_data ext sd0)\<rparr> in
     if influx_write_fails c then
       (Returned (), Some sd, s\<lparr>messages_failed := messages_failed s + 1\<rparr>)
     else let s1 = s\<lparr>influx_points := influx_points s @ [reading_point sd]\<rparr> in
     if kafka_send_fails c then
       (Returned (), Some sd, s1\<lparr>messages_failed := messages_failed s1 + 1\<rparr>)
     else let s2 = s1\<lparr>kafka_log := kafka_log s1 @
                     [\<lparr>topic = ''sensor-data'', key = PStr (device_id sd),
                       payload = SensorData_dict sd\<rparr>]\<rparr>;
              s3 = snd (cache_latest_reading ext c sd s2);
              s4 = snd (store_metadata_in_mongodb c sd s3)
          in (Returned (), Some sd,
              s4\<lparr>messages_processed := messages_processed s4 + 1,
                 devices_active := finsert did (devices_active s4)\<rparr>))"
proof -
  have k: "dict_get (SensorData_dict sd) ''device_id'' PNone = PStr (device_id sd)" for sd
    by (simp add: dict_get_def SensorData_dict_def)
  have f: "\<And>sd s. fst (cache_latest_reading ext c sd s) = Returned ()"
    by (rule cache_latest_reading_returns)
  have m: "\<And>sd s. fst (store_metadata_in_mongodb c sd s) = Returned ()"
    by (simp add: store_metadata_in_mongodb_eq)
  show ?thesis
    using b v
    apply (simp add: process_sensor_data_def process_sensor_data_try_def
        store_in_influxdb_eq publish_to_kafka_eq k Let_def)
    apply (simp split: prod.splits result.splits)
    apply (intro conjI impI allI)
    using f m
      apply (metis fst_conv snd_conv result.distinct(1))+
    done
qed

lemma validated_stores:
  assumes b: "build_sensor_data ext c did st raw = Returned sd0"
      and v: "fst (validate_sensor_reading ext sd0)"
      and sd: "sd = sd0\<lparr>data_hash := Some (hash_sensor_data ext sd0)\<rparr>"
      and p: "process_sensor_data ext c did st raw s = (r, sdo, s')"
  shows "sdo = Some sd
     \<and> set (influx_points s') \<subseteq> set (influx_points s) \<union> {reading_point sd}
     \<and> set (kafka_log s') \<subseteq> set (kafka_log s) \<union>
           {\<lparr>topic = ''sensor-data'', key = PStr did, payload = SensorData_dict sd\<rparr>}
     \<and> set (sensor_metadata s') \<subseteq> set (sensor_metadata s) \<union> {audit_document c sd}
     \<and> (\<forall>k. redis_db s' k \<noteq> redis_db s k \<longrightarrow>
            k = latest_key sd \<and>
            (\<exists>hm. redis_db s' k = Some (RHash hm) \<and> hm ''data_hash'' = Some (hash_field sd)))"
proof -
  have did: "device_id sd = did"
    using build_sensor_data_fresh[OF b] sd by simp
  note pv = process_validated[OF b v, of s, unfolded Let_def, folded sd]
  define s2 where "s2 = s\<lparr>influx_points := influx_points s @ [reading_point sd],
      kafka_log := kafka_log s @ [\<lparr>topic = ''sensor-data'', key = PStr did, payload = SensorData_dict sd\<rparr>]\<rparr>"
  define s3 where "s3 = snd (cache_latest_reading ext c sd s2)"
  have s3: "s3 = s2\<lparr>redis_db := redis_db s3, redis_ttl := redis_ttl s3\<rparr>"
    using cache_latest_reading_frame[of ext c sd s2 "fst (cache_latest_reading ext c sd s2)" s3]
    by (simp add: s3_def)
  have f1: "influx_points s3 = influx_points s2" "kafka_log s3 = kafka_log s2"
     "sensor_metadata s3 = sensor_metadata s2"
    by (subst s3, simp)+
  have rd: "redis_db s3 = redis_db s
   \<or> (\<exists>hm. redis_db s3 = (redis_db s)(latest_key sd \<mapsto> RHash hm)
            \<and> hm ''data_hash'' = Some (hash_field sd))"
    using cache_latest_reading_redis[of ext c sd s2] by (simp add: s3_def) (simp add: s2_def)
  have cases: "s' = s\<lparr>messages_failed := messages_failed s + 1\<rparr>
     \<or> s' = s\<lparr>influx_points := influx_points s @ [reading_point sd],
                 messages_failed := messages_failed s + 1\<rparr>
     \<or> s' = s3\<lparr>messages_processed := messages_processed s3 + 1,
                 devices_active := finsert did (devices_active s3)\<rparr>
     \<or> s' = s3\<lparr>sensor_metadata := sensor_metadata s3 @ [audit_document c sd],
               messages_processed := messages_processed s3 + 1,
               devices_active := finsert did (devices_active s3)\<rparr>"
    using p pv did
    by (auto simp: s2_def s3_def store_metadata_in_mongodb_eq Let_def split: if_splits)
  have sdo: "sdo = Some sd" using p pv by (auto split: if_splits)
  from cases show ?thesis
  proof (elim disjE)
    assume "s' = s\<lparr>messages_failed := messages_failed s + 1\<rparr>"
    then show ?thesis using sdo by auto
  next
    assume "s' = s\<lparr>influx_points := influx_points s @ [reading_point sd],
                 messages_failed := messages_failed s + 1\<rparr>"
    then show ?thesis using sdo by auto
  next
    assume e: "s' = s3\<lparr>messages_processed := messages_processed s3 + 1,
                 devices_active := finsert did (devices_active s3)\<rparr>"
    have "redis_db s' = redis_db s3" using e by simp
    with rd have "\<forall>k. redis_db s' k \<noteq> redis_db s k \<longrightarrow>
            k = latest_key sd \<and>
            (\<exists>hm. redis_db s' k = Some (RHash hm) \<and> hm ''data_hash'' = Some (hash_field sd))"
      by (auto split: if_splits)
    then show ?thesis using sdo e f1 by (auto simp: s2_def)
  next
    assume e: "s' = s3\<lparr>sensor_metadata := sensor_metadata s3 @ [audit_document c sd],
               messages_processed := messages_processed s3 + 1,
               devices_active := finsert did (devices_active s3)\<rparr>"
    have "redis_db s' = redis_db s3" using e by simp
    with rd have "\<forall>k. redis_db s' k \<noteq> redis_db s k \<longrightarrow>
            k = latest_key sd \<and>
            (\<exists>hm. redis_db s' k = Some (RHash hm) \<and> hm ''data_hash'' = Some (hash_field sd))"
      by (auto split: if_splits)
    then show ?thesis using sdo e f1 by (auto simp: s2_def)
  qed
qed

subsection \<open>The example readings\<close>

lemma example_build:
  "utcnow c = 7 \<Longrightarrow>
   build_sensor_data example_extern c ''dev1'' ''co2'' value_payload = Returned example_reading"
  by (simp add: build_sensor_data_def example_extern_def parse_timestamp_def SensorData_init_def
        dict_get_def example_reading_def)

lemma example_hash: "hash_sensor_data example_extern example_reading = ''h:dev1''"
  by (simp add: example_extern_def example_reading_def)

lemma example_valid: "fst (validate_sensor_reading example_extern example_reading)"
  by (simp add: example_extern_def example_reading_def)

lemma low_build:
  "build_sensor_data example_extern quiet ''dev1'' ''co2'' low_payload = Returned low_reading"
  by (simp add: build_sensor_data_def example_extern_def parse_timestamp_def SensorData_init_def
        dict_get_def example_reading_def low_reading_def quiet_def low_payload_def value_payload_def)

lemma low_invalid: "\<not> fst (validate_sensor_reading example_extern low_reading)"
  by (simp add: example_extern_def example_reading_def low_reading_def)

subsection \<open>Failure of a sink write\<close>

text \<open>
  Claim C1 says that a failure of any one of the four sink writes is caught inside the
  fan-out, leaves the other three writes to be attempted, and does not leave the fan-out;
  in particular that the stream-bus write and the time-series write do not depend on each
  other. In the code \<open>store_in_influxdb\<close> and \<open>publish_to_kafka\<close> log the exception and
  raise it again. With the time-series store down and the other three sinks up, the
  reading reaches none of them: the stream bus, the cache and the document store are as
  before, and the message is counted as failed. With all four sinks up the same reading
  does reach the stream bus.
\<close>

theorem fanout_isolation_counterexample:
  "fst (validate_sensor_reading example_extern example_reading)
   \<and> influx_write_fails influx_down \<and> \<not> kafka_send_fails influx_down
   \<and> \<not> redis_hset_fails influx_down \<and> \<not> redis_expire_fails influx_down
   \<and> \<not> mongo_insert_fails influx_down
   \<and> process_sensor_data example_extern influx_down ''dev1'' ''co2'' value_payload new_service
       = (Returned (), Some (example_reading\<lparr>data_hash := Some ''h:dev1''\<rparr>),
          new_service\<lparr>messages_failed := 1\<rparr>)
   \<and> kafka_log (new_service\<lparr>messages_failed := 1\<rparr>) = []
   \<and> redis_db (new_service\<lparr>messages_failed := 1\<rparr>) ''latest:dev1:co2'' = None
   \<and> sensor_metadata (new_service\<lparr>messages_failed := 1\<rparr>) = []
   \<and> kafka_log (snd (snd (process_sensor_data example_extern quiet ''dev1'' ''co2''
                             value_payload new_service)))
       = [\<lparr>topic = ''sensor-data'', key = PStr ''dev1'',
           payload = SensorData_dict (example_reading\<lparr>data_hash := Some ''h:dev1''\<rparr>)\<rparr>]"
proof -
  have bq: "build_sensor_data example_extern quiet ''dev1'' ''co2'' value_payload
              = Returned example_reading"
    by (simp add: example_build quiet_def)
  have fq: "\<not> influx_write_fails quiet \<and> \<not> kafka_send_fails quiet"
    by (simp add: quiet_def)
  define sdq where "sdq = example_reading\<lparr>data_hash := Some ''h:dev1''\<rparr>"
  define s2 where "s2 = new_service\<lparr>influx_points := influx_points new_service @ [reading_point sdq],
      kafka_log := kafka_log new_service @
        [\<lparr>topic = ''sensor-data'', key = PStr (device_id sdq), payload = SensorData_dict sdq\<rparr>]\<rparr>"
  define s3 where "s3 = snd (cache_latest_reading example_extern quiet sdq s2)"
  have s3: "s3 = s2\<lparr>redis_db := redis_db s3, redis_ttl := redis_ttl s3\<rparr>"
    using cache_latest_reading_frame[of example_extern quiet sdq s2
            "fst (cache_latest_reading example_extern quiet sdq s2)" s3]
    by (simp add: s3_def)
  have k3: "kafka_log s3 = kafka_log s2"
    by (subst s3, simp)
  have "kafka_log (snd (snd (process_sensor_data example_extern quiet ''dev1'' ''co2''
                             value_payload new_service))) = kafka_log s3"
    using process_validated[OF bq example_valid, of new_service] fq example_hash
    by (simp add: Let_def store_metadata_in_mongodb_eq s3_def s2_def sdq_def)
  then have kq: "kafka_log (snd (snd (process_sensor_data example_extern quiet ''dev1'' ''co2''
                             value_payload new_service)))
       = [\<lparr>topic = ''sensor-data'', key = PStr ''dev1'',
           payload = SensorData_dict (example_reading\<lparr>data_hash := Some ''h:dev1''\<rparr>)\<rparr>]"
    by (simp add: k3 s2_def sdq_def new_service_def example_reading_def)
  have b: "build_sensor_data example_extern influx_down ''dev1'' ''co2'' value_payload
             = Returned example_reading"
    by (simp add: example_build influx_down_def quiet_def)
  have h: "hash_sensor_data example_extern example_reading = ''h:dev1''"
    by (simp add: example_extern_def example_reading_def)
  have f: "influx_write_fails influx_down \<and> \<not> kafka_send_fails influx_down
   \<and> \<not> redis_hset_fails influx_down \<and> \<not> redis_expire_fails influx_down
   \<and> \<not> mongo_insert_fails influx_down"
    by (simp add: influx_down_def quiet_def)
  have "process_sensor_data example_extern influx_down ''dev1'' ''co2'' value_payload new_service
       = (Returned (), Some (example_reading\<lparr>data_hash := Some ''h:dev1''\<rparr>),
          new_service\<lparr>messages_failed := 1\<rparr>)"
    using process_validated[OF b example_valid, of new_service] f h
    by (simp add: new_service_def)
  then show ?thesis using f example_valid kq by (simp add: new_service_def)
qed

text \<open>
  Claim C1 as amended, for a reading that was built and passed validation.
  A failure of the cache write or of the document-store write is caught inside that
  write: the writes after it are still attempted and the message is counted as
  processed. A failure of the time-series write or of the stream-bus write is raised
  again by that write and ends the sequence: after a time-series failure no sink is
  written; after a stream-bus failure the time-series point is there and the cache and the
  document store are not written. The exception is caught in \<open>process_sensor_data\<close>,
  which counts the message as failed and returns normally.
\<close>

theorem sink_failure_handling:
  assumes b: "build_sensor_data ext c did st raw = Returned sd0"
      and v: "fst (validate_sensor_reading ext sd0)"
      and sd: "sd = sd0\<lparr>data_hash := Some (hash_sensor_data ext sd0)\<rparr>"
      and p: "process_sensor_data ext c did st raw s = (r, sdo, s')"
  shows "r = Returned () \<and> sdo = Some sd
     \<and> (influx_write_fails c \<longrightarrow> s' = s\<lparr>messages_failed := messages_failed s + 1\<rparr>)
     \<and> (\<not> influx_write_fails c \<and> kafka_send_fails c \<longrightarrow>
          s' = s\<lparr>influx_points := influx_points s @ [reading_point sd],
                 messages_failed := messages_failed s + 1\<rparr>)
     \<and> (\<not> influx_write_fails c \<and> \<not> kafka_send_fails c \<longrightarrow>
           influx_points s' = influx_points s @ [reading_point sd]
         \<and> kafka_log s' = kafka_log s @
              [\<lparr>topic = ''sensor-data'', key = PStr did, payload = SensorData_dict sd\<rparr>]
         \<and> (redis_hset_fails c \<longrightarrow> redis_db s' = redis_db s \<and> redis_ttl s' = redis_ttl s)
         \<and> (\<not> redis_hset_fails c \<and> redis_db s (latest_key sd) = None \<longrightarrow>
              redis_db s' = (redis_db s)(latest_key sd \<mapsto> RHash (map_of (latest_mapping ext sd))))
         \<and> sensor_metadata s' =
              (if mongo_insert_fails c then sensor_metadata s
               else sensor_metadata s @ [audit_document c sd])
         \<and> messages_processed s' = messages_processed s + 1
         \<and> messages_failed s' = messages_failed s
         \<and> devices_active s' = finsert did (devices_active s))"
proof -
  have did: "device_id sd = did"
    using build_sensor_data_fresh[OF b] sd by simp
  note pv = process_validated[OF b v, of s, unfolded Let_def, folded sd]
  have r: "r = Returned ()" "sdo = Some sd"
    using p pv by (auto split: if_splits)
  have c1: "influx_write_fails c \<Longrightarrow> s' = s\<lparr>messages_failed := messages_failed s + 1\<rparr>"
    using p pv by simp
  have c2: "\<not> influx_write_fails c \<Longrightarrow> kafka_send_fails c \<Longrightarrow>
          s' = s\<lparr>influx_points := influx_points s @ [reading_point sd],
                 messages_failed := messages_failed s + 1\<rparr>"
    using p pv by simp
  define s2 where "s2 = s\<lparr>influx_points := influx_points s @ [reading_point sd],
      kafka_log := kafka_log s @ [\<lparr>topic = ''sensor-data'', key = PStr did, payload = SensorData_dict sd\<rparr>]\<rparr>"
  define s3 where "s3 = snd (cache_latest_reading ext c sd s2)"
  have s3: "s3 = s2\<lparr>redis_db := redis_db s3, redis_ttl := redis_ttl s3\<rparr>"
    using cache_latest_reading_frame[of ext c sd s2 "fst (cache_latest_reading ext c sd s2)" s3]
    by (simp add: s3_def)
  have s': "\<not> influx_write_fails c \<Longrightarrow> \<not> kafka_send_fails c \<Longrightarrow>
     s' = (let s4 = (if mongo_insert_fails c then s3
                   else s3\<lparr>sensor_metadata := sensor_metadata s3 @ [audit_document c sd]\<rparr>)
           in s4\<lparr>messages_processed := messages_processed s4 + 1,
                 devices_active := finsert did (devices_active s4)\<rparr>)"
    using p pv did by (auto simp: s2_def s3_def store_metadata_in_mongodb_eq Let_def split: if_splits)
  have f1: "influx_points s3 = influx_points s2" "kafka_log s3 = kafka_log s2"
     "sensor_metadata s3 = sensor_metadata s2" "messages_processed s3 = messages_processed s2"
     "messages_failed s3 = messages_failed s2" "devices_active s3 = devices_active s2"
    by (subst s3, simp)+
  have h1: "redis_hset_fails c \<Longrightarrow> s3 = s2"
    by (simp add: s3_def cache_latest_reading_hset_fails)
  have h2: "\<not> redis_hset_fails c \<Longrightarrow> redis_db s (latest_key sd) = None \<Longrightarrow>
      redis_db s3 = (redis_db s)(latest_key sd \<mapsto> RHash (map_of (latest_mapping ext sd)))"
    using cache_latest_reading_fresh_key[of c s2 sd ext] by (simp add: s3_def s2_def)
  have c3: "\<not> influx_write_fails c \<and> \<not> kafka_send_fails c \<longrightarrow>
           influx_points s' = influx_points s @ [reading_point sd]
         \<and> kafka_log s' = kafka_log s @
              [\<lparr>topic = ''sensor-data'', key = PStr did, payload = SensorData_dict sd\<rparr>]
         \<and> (redis_hset_fails c \<longrightarrow> redis_db s' = redis_db s \<and> redis_ttl s' = redis_ttl s)
         \<and> (\<not> redis_hset_fails c \<and> redis_db s (latest_key sd) = None \<longrightarrow>
              redis_db s' = (redis_db s)(latest_key sd \<mapsto> RHash (map_of (latest_mapping ext sd))))
         \<and> sensor_metadata s' =
              (if mongo_insert_fails c then sensor_metadata s
               else sensor_metadata s @ [audit_document c sd])
         \<and> messages_processed s' = messages_processed s + 1
         \<and> messages_failed s' = messages_failed s
         \<and> devices_active s' = finsert did (devices_active s)"
  proof (intro impI, elim conjE)
    assume a: "\<not> influx_write_fails c" "\<not> kafka_send_fails c"
    note e = s'[OF a, unfolded Let_def]
    show "influx_points s' = influx_points s @ [reading_point sd]
         \<and> kafka_log s' = kafka_log s @
              [\<lparr>topic = ''sensor-data'', key = PStr did, payload = SensorData_dict sd\<rparr>]
         \<and> (redis_hset_fails c \<longrightarrow> redis_db s' = redis_db s \<and> redis_ttl s' = redis_ttl s)
         \<and> (\<not> redis_hset_fails c \<and> redis_db s (latest_key sd) = None \<longrightarrow>
              redis_db s' = (redis_db s)(latest_key sd \<mapsto> RHash (map_of (latest_mapping ext sd))))
         \<and> sensor_metadata s' =
              (if mongo_insert_fails c then sensor_metadata s
               else sensor_metadata s @ [audit_document c sd])
         \<and> messages_processed s' = messages_processed s + 1
         \<and> messages_failed s' = messages_failed s
         \<and> devices_active s' = finsert did (devices_active s)"
      using h1 h2 by (simp add: e f1) (simp add: s2_def)
  qed
  show ?thesis using r c1 c2 c3 by blast
qed

theorem sink_failure_handling_witness:
  "build_sensor_data example_extern kafka_down ''dev1'' ''co2'' value_payload = Returned example_reading
   \<and> build_sensor_data example_extern cache_write_down ''dev1'' ''co2'' value_payload
       = Returned example_reading
   \<and> fst (validate_sensor_reading example_extern example_reading)
   \<and> \<not> influx_write_fails kafka_down \<and> kafka_send_fails kafka_down
   \<and> process_sensor_data example_extern kafka_down ''dev1'' ''co2'' value_payload new_service
       = (Returned (), Some (example_reading\<lparr>data_hash := Some ''h:dev1''\<rparr>),
          new_service\<lparr>influx_points := [reading_point (example_reading\<lparr>data_hash := Some ''h:dev1''\<rparr>)],
                      messages_failed := 1\<rparr>)
   \<and> \<not> influx_write_fails cache_write_down \<and> \<not> kafka_send_fails cache_write_down
   \<and> redis_hset_fails cache_write_down \<and> \<not> mongo_insert_fails cache_write_down
   \<and> (\<exists>s'. process_sensor_data example_extern cache_write_down ''dev1'' ''co2'' value_payload
                new_service
              = (Returned (), Some (example_reading\<lparr>data_hash := Some ''h:dev1''\<rparr>), s')
          \<and> redis_db s' = Map.empty
          \<and> sensor_metadata s'
               = [audit_document cache_write_down (example_reading\<lparr>data_hash := Some ''h:dev1''\<rparr>)]
          \<and> messages_processed s' = 1 \<and> messages_failed s' = 0)"
proof -
  have b: "build_sensor_data example_extern kafka_down ''dev1'' ''co2'' value_payload
             = Returned example_reading"
    by (simp add: example_build kafka_down_def quiet_def)
  have f: "\<not> influx_write_fails kafka_down \<and> kafka_send_fails kafka_down"
    by (simp add: kafka_down_def quiet_def)
  obtain r sdo s' where
    p: "process_sensor_data example_extern kafka_down ''dev1'' ''co2'' value_payload new_service
          = (r, sdo, s')"
    using prod_cases3 by blast
  from sink_failure_handling[OF b example_valid refl p] f example_hash
  have "r = Returned () \<and> sdo = Some (example_reading\<lparr>data_hash := Some ''h:dev1''\<rparr>)
      \<and> s' = new_service\<lparr>influx_points := [reading_point (example_reading\<lparr>data_hash := Some ''h:dev1''\<rparr>)],
                      messages_failed := 1\<rparr>"
    by (simp add: new_service_def)
  with p have one:
    "process_sensor_data example_extern kafka_down ''dev1'' ''co2'' value_payload new_service
       = (Returned (), Some (example_reading\<lparr>data_hash := Some ''h:dev1''\<rparr>),
          new_service\<lparr>influx_points := [reading_point (example_reading\<lparr>data_hash := Some ''h:dev1''\<rparr>)],
                      messages_failed := 1\<rparr>)"
    by simp
  have b2: "build_sensor_data example_extern cache_write_down ''dev1'' ''co2'' value_payload
              = Returned example_reading"
    by (simp add: example_build cache_write_down_def quiet_def)
  have f2: "\<not> influx_write_fails cache_write_down \<and> \<not> kafka_send_fails cache_write_down
     \<and> redis_hset_fails cache_write_down \<and> \<not> mongo_insert_fails cache_write_down"
    by (simp add: cache_write_down_def quiet_def)
  obtain r2 sdo2 s2 where
    p2: "process_sensor_data example_extern cache_write_down ''dev1'' ''co2'' value_payload
           new_service = (r2, sdo2, s2)"
    using prod_cases3 by blast
  from sink_failure_handling[OF b2 example_valid refl p2] f2 example_hash
  have "r2 = Returned () \<and> sdo2 = Some (example_reading\<lparr>data_hash := Some ''h:dev1''\<rparr>)
      \<and> redis_db s2 = Map.empty
      \<and> sensor_metadata s2
           = [audit_document cache_write_down (example_reading\<lparr>data_hash := Some ''h:dev1''\<rparr>)]
      \<and> messages_processed s2 = 1 \<and> messages_failed s2 = 0"
    by (simp add: new_service_def)
  with p2 have two:
    "\<exists>s'. process_sensor_data example_extern cache_write_down ''dev1'' ''co2'' value_payload
                new_service
              = (Returned (), Some (example_reading\<lparr>data_hash := Some ''h:dev1''\<rparr>), s')
          \<and> redis_db s' = Map.empty
          \<and> sensor_metadata s'
               = [audit_document cache_write_down (example_reading\<lparr>data_hash := Some ''h:dev1''\<rparr>)]
          \<and> messages_processed s' = 1 \<and> messages_failed s' = 0"
    by simp
  from one two b b2 f f2 example_valid show ?thesis by blast
qed

subsection \<open>The hash and validation\<close>

text \<open>
  Claim C2: the reading carries a hash if and only if it passed validation (the validator
  sees the reading before the hash is attached); a reading that was not built or was
  rejected leaves every store as it was; and a reading with a hash is the only thing the
  call writes: the point, the stream-bus message, the cache entry and the document are
  built from it and carry its hash.
\<close>

theorem hash_iff_validated:
  assumes p: "process_sensor_data ext c did st raw s = (r, sdo, s')"
  shows
   "(\<forall>sd. sdo = Some sd \<longrightarrow>
        (data_hash sd \<noteq> None \<longleftrightarrow> fst (validate_sensor_reading ext (sd\<lparr>data_hash := None\<rparr>))))
    \<and> ((sdo = None \<or> (\<exists>sd. sdo = Some sd \<and> data_hash sd = None)) \<longrightarrow>
          influx_points s' = influx_points s \<and> kafka_log s' = kafka_log s
        \<and> redis_db s' = redis_db s \<and> redis_ttl s' = redis_ttl s
        \<and> sensor_metadata s' = sensor_metadata s)
    \<and> (\<forall>sd. sdo = Some sd \<and> data_hash sd \<noteq> None \<longrightarrow>
          data_hash sd = Some (hash_sensor_data ext (sd\<lparr>data_hash := None\<rparr>))
        \<and> set (influx_points s') \<subseteq> set (influx_points s) \<union> {reading_point sd}
        \<and> set (kafka_log s') \<subseteq> set (kafka_log s) \<union>
              {\<lparr>topic = ''sensor-data'', key = PStr did, payload = SensorData_dict sd\<rparr>}
        \<and> set (sensor_metadata s') \<subseteq> set (sensor_metadata s) \<union> {audit_document c sd}
        \<and> (\<forall>k. redis_db s' k \<noteq> redis_db s k \<longrightarrow>
               k = latest_key sd \<and>
               (\<exists>hm. redis_db s' k = Some (RHash hm) \<and> hm ''data_hash'' = Some (hash_field sd)))
        \<and> map_of (point_fields (reading_point sd)) ''data_hash'' = Some (hash_field sd)
        \<and> hash_field sd = PStr (hash_sensor_data ext (sd\<lparr>data_hash := None\<rparr>)))"
proof (cases "build_sensor_data ext c did st raw")
  case (Raised e)
  from process_unbuilt[OF Raised, of s] p show ?thesis by auto
next
  case (Returned sd0)
  note f = build_sensor_data_fresh[OF Returned]
  show ?thesis
  proof (cases "fst (validate_sensor_reading ext sd0)")
    case False
    have c: "sd0\<lparr>data_hash := None\<rparr> = sd0"
      using clear_hash[of sd0] f by simp
    have c': "validate_sensor_reading ext (sd0\<lparr>data_hash := None\<rparr>)
                = validate_sensor_reading ext sd0"
      by (rule arg_cong[OF c])
    from process_rejected[OF Returned False, of s] p f False c'
    show ?thesis by auto
  next
    case True
    define sd where "sd = sd0\<lparr>data_hash := Some (hash_sensor_data ext sd0)\<rparr>"
    have c: "sd\<lparr>data_hash := None\<rparr> = sd0"
      using clear_hash[of sd0] f by (simp add: sd_def)
    have h: "data_hash sd = Some (hash_sensor_data ext sd0)" by (simp add: sd_def)
    have hf: "hash_field sd = PStr (hash_sensor_data ext sd0)" by (simp add: hash_field_def h)
    from validated_stores[OF Returned True sd_def p] c h hf True reading_point_hash[of sd]
    show ?thesis by auto
  qed
qed

theorem hash_iff_validated_witness:
  "(\<exists>r sd s'. process_sensor_data example_extern quiet ''dev1'' ''co2'' value_payload new_service
                = (r, Some sd, s')
      \<and> data_hash sd = Some ''h:dev1''
      \<and> fst (validate_sensor_reading example_extern (sd\<lparr>data_hash := None\<rparr>)))
   \<and> (\<exists>r sd s'. process_sensor_data example_extern quiet ''dev1'' ''co2'' low_payload new_service
                = (r, Some sd, s')
      \<and> data_hash sd = None
      \<and> \<not> fst (validate_sensor_reading example_extern (sd\<lparr>data_hash := None\<rparr>))
      \<and> influx_points s' = [] \<and> kafka_log s' = [] \<and> sensor_metadata s' = []
      \<and> redis_db s' = Map.empty)"
proof -
  obtain r sdo s' where
    p: "process_sensor_data example_extern quiet ''dev1'' ''co2'' value_payload new_service
          = (r, sdo, s')"
    using prod_cases3 by blast
  have b: "build_sensor_data example_extern quiet ''dev1'' ''co2'' value_payload
             = Returned example_reading"
    by (simp add: example_build quiet_def)
  have h: "hash_sensor_data example_extern example_reading = ''h:dev1''"
    by (simp add: example_extern_def example_reading_def)
  have sdo: "sdo = Some (example_reading\<lparr>data_hash := Some ''h:dev1''\<rparr>)"
    using process_validated[OF b example_valid, of new_service] p h
    by (auto simp: Let_def split: if_splits)
  have one: "\<exists>r sd s'. process_sensor_data example_extern quiet ''dev1'' ''co2'' value_payload
                new_service = (r, Some sd, s')
      \<and> data_hash sd = Some ''h:dev1''
      \<and> fst (validate_sensor_reading example_extern (sd\<lparr>data_hash := None\<rparr>))"
    using hash_iff_validated[OF p] sdo p by auto
  obtain r2 sdo2 s2 where
    q: "process_sensor_data example_extern quiet ''dev1'' ''co2'' low_payload new_service
          = (r2, sdo2, s2)"
    using prod_cases3 by blast
  have sdo2: "sdo2 = Some low_reading" "data_hash low_reading = None"
    using process_rejected[OF low_build low_invalid, of new_service] q
    by (simp_all add: low_reading_def example_reading_def)
  have two: "\<exists>r sd s'. process_sensor_data example_extern quiet ''dev1'' ''co2'' low_payload
                new_service = (r, Some sd, s')
      \<and> data_hash sd = None
      \<and> \<not> fst (validate_sensor_reading example_extern (sd\<lparr>data_hash := None\<rparr>))
      \<and> influx_points s' = [] \<and> kafka_log s' = [] \<and> sensor_metadata s' = []
      \<and> redis_db s' = Map.empty"
    using hash_iff_validated[OF q] sdo2 q by (auto simp: new_service_def)
  from one two show ?thesis by blast
qed

subsection \<open>A reading that fails validation\<close>

text \<open>
  Claim C5 says that a reading that fails validation reaches no sink, is persisted
  nowhere, and increments the failed-message counter. The code returns from the handler
  right after the warning; the counter is incremented only in the exception handler. For
  the value \<open>-5\<close> the state after the call is the state before it, so the counter is not
  incremented.
\<close>

theorem invalid_reading_counted_counterexample:
  "\<not> fst (validate_sensor_reading example_extern low_reading)
   \<and> process_sensor_data example_extern quiet ''dev1'' ''co2'' low_payload new_service
       = (Returned (), Some low_reading, new_service)
   \<and> messages_failed (snd (snd (process_sensor_data example_extern quiet ''dev1'' ''co2''
         low_payload new_service))) \<noteq> messages_failed new_service + 1"
  using low_build low_invalid
  by (simp add: process_sensor_data_def process_sensor_data_try_def)

text \<open>
  Claim C5 as amended: a reading that fails validation is dropped before any sink, is
  persisted nowhere and gets no hash; the call returns normally and leaves the whole
  state, both counters and the set of active devices included, as it was.
\<close>

theorem invalid_reading_dropped:
  assumes b: "build_sensor_data ext c did st raw = Returned sd0"
      and v: "\<not> fst (validate_sensor_reading ext sd0)"
  shows "process_sensor_data ext c did st raw s = (Returned (), Some sd0, s) \<and> data_hash sd0 = None"
  using process_rejected[OF b v, of s] build_sensor_data_fresh[OF b] by simp

theorem invalid_reading_dropped_witness:
  "build_sensor_data example_extern quiet ''dev1'' ''co2'' low_payload = Returned low_reading
   \<and> \<not> fst (validate_sensor_reading example_extern low_reading)
   \<and> process_sensor_data example_extern quiet ''dev1'' ''co2'' low_payload new_service
       = (Returned (), Some low_reading, new_service)"
  using invalid_reading_dropped[OF low_build low_invalid, of new_service] low_build low_invalid
  by simp

section \<open>The statistics reporter\<close>

lemma report_statistics_ok:
  "\<not> redis_set_fails c \<Longrightarrow>
   report_statistics ext c s =
     (Returned (),
      s\<lparr>redis_db := (redis_db s)(''ingestion_stats'' \<mapsto> RText (PDict (stats_snapshot ext c s))),
        redis_ttl := (redis_ttl s)(''ingestion_stats'' \<mapsto> 3600),
        messages_processed := 0, messages_failed := 0, devices_active := {||}\<rparr>)"
  by (simp add: report_statistics_def report_statistics_try_def redis_set_def)

lemma report_statistics_down:
  "redis_set_fails c \<Longrightarrow> report_statistics ext c s = (Returned (), s)"
  by (simp add: report_statistics_def report_statistics_try_def redis_set_def)

lemma snapshot_fields:
  "map_of (stats_snapshot ext c s) ''messages_processed'' = Some (PNum (of_nat (messages_processed s)))"
  "map_of (stats_snapshot ext c s) ''messages_failed'' = Some (PNum (of_nat (messages_failed s)))"
  "map_of (stats_snapshot ext c s) ''active_devices'' = Some (PNum (of_nat (fcard (devices_active s))))"
  "map_of (stats_snapshot ext c s) ''success_rate''
     = Some (PNum (success_rate (messages_processed s) (messages_failed s)))"
  by (simp_all add: stats_snapshot_def)

text \<open>
  Claim C7 says that at every reporting tick the snapshot is published and the counters
  and the set of active devices are then reset. The reset stands after the write of the
  snapshot inside the same \<open>try\<close>: at a tick where the write raises, nothing is published
  and nothing is reset.
\<close>

theorem stats_tick_counterexample:
  "redis_set_fails stats_write_down
   \<and> report_statistics example_extern stats_write_down busy_service = (Returned (), busy_service)
   \<and> redis_db busy_service ''ingestion_stats'' = None
   \<and> messages_processed busy_service = 10 \<and> messages_failed busy_service = 2
   \<and> devices_active busy_service = {|''dev1''|}"
  by (simp add: report_statistics_down stats_write_down_def quiet_def busy_service_def new_service_def)

text \<open>
  Claim C7 as amended: at every reporting tick at which the write of the snapshot
  succeeds, the snapshot stored under \<open>ingestion_stats\<close> (time to live 3600) holds the
  counters of the window and the success rate processed / (processed + failed), 0 when
  the denominator is 0, and the two counters and the set of active devices are then
  reset. After a window with 10 processed and 2 failed and a window without traffic, both
  published, the second snapshot shows 0 processed, 0 failed and no active device. The
  quotient is exact here; Python rounds it to a float.
\<close>

theorem stats_tick_publishes_and_resets:
  assumes ok: "\<not> redis_set_fails c"
  shows
   "(let s' = snd (report_statistics ext c s) in
       fst (report_statistics ext c s) = Returned ()
     \<and> redis_db s' ''ingestion_stats'' = Some (RText (PDict (stats_snapshot ext c s)))
     \<and> redis_ttl s' ''ingestion_stats'' = Some 3600
     \<and> map_of (stats_snapshot ext c s) ''messages_processed''
          = Some (PNum (of_nat (messages_processed s)))
     \<and> map_of (stats_snapshot ext c s) ''messages_failed''
          = Some (PNum (of_nat (messages_failed s)))
     \<and> map_of (stats_snapshot ext c s) ''active_devices''
          = Some (PNum (of_nat (fcard (devices_active s))))
     \<and> map_of (stats_snapshot ext c s) ''success_rate''
          = Some (PNum (if messages_processed s + messages_failed s = 0 then 0
                        else of_nat (messages_processed s)
                               / of_nat (messages_processed s + messages_failed s)))
     \<and> messages_processed s' = 0 \<and> messages_failed s' = 0 \<and> devices_active s' = {||})
    \<and> (\<not> redis_set_fails c2 \<and> running s \<and> messages_processed s = 10 \<and> messages_failed s = 2 \<longrightarrow>
         (let s1 = run_statistics_reporter ext [c] s;
              s2 = run_statistics_reporter ext [c, c2] s
          in (\<exists>snap1. redis_db s1 ''ingestion_stats'' = Some (RText (PDict snap1))
                \<and> map_of snap1 ''messages_processed'' = Some (PNum 10)
                \<and> map_of snap1 ''messages_failed'' = Some (PNum 2)
                \<and> map_of snap1 ''success_rate'' = Some (PNum (5 / 6)))
           \<and> (\<exists>snap2. redis_db s2 ''ingestion_stats'' = Some (RText (PDict snap2))
                \<and> map_of snap2 ''messages_processed'' = Some (PNum 0)
                \<and> map_of snap2 ''messages_failed'' = Some (PNum 0)
                \<and> map_of snap2 ''active_devices'' = Some (PNum 0)
                \<and> map_of snap2 ''success_rate'' = Some (PNum 0))
           \<and> messages_processed s2 = 0 \<and> messages_failed s2 = 0 \<and> devices_active s2 = {||}))"
proof -
  have one: "(let s' = snd (report_statistics ext c s) in
       fst (report_statistics ext c s) = Returned ()
     \<and> redis_db s' ''ingestion_stats'' = Some (RText (PDict (stats_snapshot ext c s)))
     \<and> redis_ttl s' ''ingestion_stats'' = Some 3600
     \<and> map_of (stats_snapshot ext c s) ''messages_processed''
          = Some (PNum (of_nat (messages_processed s)))
     \<and> map_of (stats_snapshot ext c s) ''messages_failed''
          = Some (PNum (of_nat (messages_failed s)))
     \<and> map_of (stats_snapshot ext c s) ''active_devices''
          = Some (PNum (of_nat (fcard (devices_active s))))
     \<and> map_of (stats_snapshot ext c s) ''success_rate''
          = Some (PNum (if messages_processed s + messages_failed s = 0 then 0
                        else of_nat (messages_processed s)
                               / of_nat (messages_processed s + messages_failed s)))
     \<and> messages_processed s' = 0 \<and> messages_failed s' = 0 \<and> devices_active s' = {||})"
    using ok by (simp add: report_statistics_ok snapshot_fields success_rate_def Let_def)
  have two: "\<not> redis_set_fails c2 \<and> running s \<and> messages_processed s = 10 \<and> messages_failed s = 2 \<longrightarrow>
         (let s1 = run_statistics_reporter ext [c] s;
              s2 = run_statistics_reporter ext [c, c2] s
          in (\<exists>snap1. redis_db s1 ''ingestion_stats'' = Some (RText (PDict snap1))
                \<and> map_of snap1 ''messages_processed'' = Some (PNum 10)
                \<and> map_of snap1 ''messages_failed'' = Some (PNum 2)
                \<and> map_of snap1 ''success_rate'' = Some (PNum (5 / 6)))
           \<and> (\<exists>snap2. redis_db s2 ''ingestion_stats'' = Some (RText (PDict snap2))
                \<and> map_of snap2 ''messages_processed'' = Some (PNum 0)
                \<and> map_of snap2 ''messages_failed'' = Some (PNum 0)
                \<and> map_of snap2 ''active_devices'' = Some (PNum 0)
                \<and> map_of snap2 ''success_rate'' = Some (PNum 0))
           \<and> messages_processed s2 = 0 \<and> messages_failed s2 = 0 \<and> devices_active s2 = {||})"
    using ok by (simp add: report_statistics_ok snapshot_fields success_rate_def Let_def)
  from one two show ?thesis by blast
qed

theorem stats_tick_publishes_and_resets_witness:
  "\<not> redis_set_fails quiet \<and> running busy_service
   \<and> messages_processed busy_service = 10 \<and> messages_failed busy_service = 2
   \<and> fst (report_statistics example_extern quiet busy_service) = Returned ()
   \<and> map_of (stats_snapshot example_extern quiet busy_service) ''success_rate'' = Some (PNum (5 / 6))
   \<and> messages_processed (snd (report_statistics example_extern quiet busy_service)) = 0
   \<and> messages_failed (snd (report_statistics example_extern quiet busy_service)) = 0
   \<and> devices_active (snd (report_statistics example_extern quiet busy_service)) = {||}
   \<and> messages_processed (run_statistics_reporter example_extern [quiet, quiet] busy_service) = 0
   \<and> devices_active (run_statistics_reporter example_extern [quiet, quiet] busy_service) = {||}"
proof -
  have ok: "\<not> redis_set_fails quiet" by (simp add: quiet_def)
  have b: "running busy_service" "messages_processed busy_service = 10"
    "messages_failed busy_service = 2"
    by (simp_all add: busy_service_def new_service_def)
  from stats_tick_publishes_and_resets[OF ok, of example_extern busy_service quiet] ok b
  show ?thesis by (simp add: Let_def)
qed

text \<open>
  Claim C10: when the write of the snapshot raises, the tick returns normally with the
  state untouched: the reset is skipped and both counters and the set of active devices
  keep their values. Whatever the next window adds (\<open>p\<close> processed, \<open>q\<close> failed, the
  devices \<open>D\<close>), the next snapshot that is published shows the sums.
\<close>

theorem failed_stats_write_skips_reset:
  assumes down: "redis_set_fails c"
  shows
   "report_statistics ext c s = (Returned (), s)
    \<and> (\<not> redis_set_fails c' \<longrightarrow>
         (let s1 = snd (report_statistics ext c s);
              s2 = s1\<lparr>messages_processed := messages_processed s1 + p,
                      messages_failed := messages_failed s1 + q,
                      devices_active := devices_active s1 |\<union>| D\<rparr>;
              s3 = snd (report_statistics ext c' s2)
          in \<exists>snap. redis_db s3 ''ingestion_stats'' = Some (RText (PDict snap))
               \<and> map_of snap ''messages_processed''
                    = Some (PNum (of_nat (messages_processed s + p)))
               \<and> map_of snap ''messages_failed''
                    = Some (PNum (of_nat (messages_failed s + q)))
               \<and> map_of snap ''active_devices''
                    = Some (PNum (of_nat (fcard (devices_active s |\<union>| D))))))"
  using down by (simp add: report_statistics_down report_statistics_ok snapshot_fields Let_def)

theorem failed_stats_write_skips_reset_witness:
  "redis_set_fails stats_write_down \<and> \<not> redis_set_fails quiet
   \<and> report_statistics example_extern stats_write_down busy_service = (Returned (), busy_service)
   \<and> messages_processed busy_service = 10 \<and> messages_failed busy_service = 2
   \<and> (\<exists>snap. redis_db (snd (report_statistics example_extern quiet
                  (busy_service\<lparr>messages_processed := messages_processed busy_service + 3,
                                messages_failed := messages_failed busy_service + 1,
                                devices_active := devices_active busy_service |\<union>| {||}\<rparr>)))
                ''ingestion_stats'' = Some (RText (PDict snap))
         \<and> map_of snap ''messages_processed'' = Some (PNum 13)
         \<and> map_of snap ''messages_failed'' = Some (PNum 3))"
proof -
  have down: "redis_set_fails stats_write_down" by (simp add: stats_write_down_def quiet_def)
  have ok: "\<not> redis_set_fails quiet" by (simp add: quiet_def)
  have b: "messages_processed busy_service = 10" "messages_failed busy_service = 2"
    by (simp_all add: busy_service_def new_service_def)
  note t = failed_stats_write_skips_reset[OF down, where ext = example_extern
      and s = busy_service and c' = quiet and p = 3 and q = 1 and D = "{||}"]
  from t have e: "report_statistics example_extern stats_write_down busy_service
                    = (Returned (), busy_service)"
    by simp
  from t ok show ?thesis
    unfolding e using down b by (simp add: Let_def) blast
qed

section \<open>Start-up\<close>

lemma initialize_fails:
  assumes "influx_init_fails ce \<or> redis_ping_fails ce \<or> mongo_ping_fails ce
           \<or> kafka_init_fails ce \<or> mqtt_connect_fails ce"
  shows "\<exists>e s1. initialize ce s = (Raised e, s1) \<and> running s1 = running s
           \<and> mqtt_loop s1 = mqtt_loop s \<and> subscriptions s1 = subscriptions s
           \<and> stats_task s1 = stats_task s"
  using assms by (auto simp: initialize_def initialize_try_def Let_def)

lemma initialize_succeeds:
  assumes "\<not> influx_init_fails ce" "\<not> redis_ping_fails ce" "\<not> mongo_ping_fails ce"
          "\<not> kafka_init_fails ce" "\<not> mqtt_connect_fails ce"
  shows "\<exists>s1. initialize ce s = (Returned (), s1) \<and> running s1"
  using assms by (simp add: initialize_def initialize_try_def Let_def)

text \<open>
  Claim C8: when any connection step of \<open>initialize\<close> fails, \<open>initialize\<close> raises with the
  flag \<open>running\<close> as it was (it is set only after the last step), \<open>run\<close> raises the same
  exception after \<open>shutdown\<close>, the network loop of the MQTT client and the statistics task
  are not started and no subscription is made; with the loop not running, neither the
  connection callback (which subscribes) nor the message callback is ever called.
\<close>

theorem startup_failure_aborts:
  assumes f: "influx_init_fails ce \<or> redis_ping_fails ce \<or> mongo_ping_fails ce
           \<or> kafka_init_fails ce \<or> mqtt_connect_fails ce"
  shows "\<exists>e s1. initialize ce s = (Raised e, s1)
           \<and> running s1 = running s \<and> mqtt_loop s1 = mqtt_loop s
           \<and> subscriptions s1 = subscriptions s \<and> stats_task s1 = stats_task s
           \<and> run ce s = Some (Raised e, shutdown s1)
           \<and> \<not> running (shutdown s1)
           \<and> mqtt_loop (shutdown s1) = mqtt_loop s
           \<and> subscriptions (shutdown s1) = subscriptions s
           \<and> stats_task (shutdown s1) = stats_task s
           \<and> (\<not> mqtt_loop s \<longrightarrow>
                (\<forall>rc. deliver_connack rc (shutdown s1) = shutdown s1)
              \<and> (\<forall>c tp raw. deliver_message c tp raw (shutdown s1) = (Returned None, shutdown s1)))"
proof -
  from initialize_fails[OF f, of s] obtain e s1 where
    i: "initialize ce s = (Raised e, s1)" and
    k: "running s1 = running s" "mqtt_loop s1 = mqtt_loop s"
       "subscriptions s1 = subscriptions s" "stats_task s1 = stats_task s"
    by blast
  have r: "run ce s = Some (Raised e, shutdown s1)"
    using i by (simp add: run_def)
  have sh: "\<not> running (shutdown s1)" "mqtt_loop (shutdown s1) = mqtt_loop s1"
       "subscriptions (shutdown s1) = subscriptions s1" "stats_task (shutdown s1) = stats_task s1"
    by (simp_all add: shutdown_def)
  have d: "\<not> mqtt_loop s \<longrightarrow>
                (\<forall>rc. deliver_connack rc (shutdown s1) = shutdown s1)
              \<and> (\<forall>c tp raw. deliver_message c tp raw (shutdown s1) = (Returned None, shutdown s1))"
    using sh(2) k(2) by (simp add: deliver_connack_def deliver_message_def)
  from i k r sh d show ?thesis by auto
qed

theorem startup_failure_aborts_witness:
  "redis_ping_fails cache_down \<and> \<not> mqtt_loop new_service
   \<and> (\<exists>s1. run cache_down new_service = Some (Raised RedisError, shutdown s1)
         \<and> \<not> running s1 \<and> \<not> running (shutdown s1)
         \<and> \<not> mqtt_loop (shutdown s1) \<and> subscriptions (shutdown s1) = []
         \<and> deliver_connack 0 (shutdown s1) = shutdown s1)"
proof -
  have f: "redis_ping_fails cache_down" by (simp add: cache_down_def all_up_def)
  have n: "\<not> mqtt_loop new_service" "\<not> running new_service" "subscriptions new_service = []"
    by (simp_all add: new_service_def)
  have i: "fst (initialize cache_down new_service) = Raised RedisError"
    by (simp add: initialize_def initialize_try_def cache_down_def all_up_def Let_def)
  from startup_failure_aborts[of cache_down new_service] f
  obtain e s1 where
    a: "initialize cache_down new_service = (Raised e, s1)"
       "running s1 = running new_service"
       "run cache_down new_service = Some (Raised e, shutdown s1)"
       "\<not> running (shutdown s1)"
       "mqtt_loop (shutdown s1) = mqtt_loop new_service"
       "subscriptions (shutdown s1) = subscriptions new_service"
       "\<not> mqtt_loop new_service \<longrightarrow> (\<forall>rc. deliver_connack rc (shutdown s1) = shutdown s1)
              \<and> (\<forall>c tp raw. deliver_message c tp raw (shutdown s1) = (Returned None, shutdown s1))"
    by blast
  from a(1) i have e: "e = RedisError" by simp
  from a e n f show ?thesis by auto
qed

section \<open>The fingerprint\<close>

text \<open>
  Claim C9, against the fingerprint as the specification describes it: two readings that
  agree on device identifier, sensor type, timestamp, value and unit have the same hash;
  metadata, quality and an earlier hash do not enter it. On the side of the code, the
  reading built from a payload depends on the payload's fields only through the mapping
  from names to values, so two payloads with the same fields in a different order give
  the same reading.
\<close>

theorem fingerprint_canonical:
  "(device_id a = device_id b \<and> sensor_type a = sensor_type b \<and> timestamp a = timestamp b
      \<and> sensor_value a = sensor_value b \<and> unit a = unit b
      \<longrightarrow> hash_sensor_data_spec dg a = hash_sensor_data_spec dg b)
   \<and> hash_sensor_data_spec dg (a\<lparr>metadata := m, quality := q, data_hash := h\<rparr>)
       = hash_sensor_data_spec dg a
   \<and> (json_loads ext raw1 = Some (PDict d1) \<and> json_loads ext raw2 = Some (PDict d2)
      \<and> distinct (map fst d1) \<and> distinct (map fst d2) \<and> set d1 = set d2
      \<longrightarrow> build_sensor_data ext c did st raw1 = build_sensor_data ext c did st raw2)"
proof -
  have m: "distinct (map fst d1) \<and> distinct (map fst d2) \<and> set d1 = set d2
             \<longrightarrow> map_of d1 = map_of d2"
    using map_of_inject_set[of d1 d2] by blast
  have b: "build_sensor_data ext c did st raw1 = build_sensor_data ext c did st raw2"
    if l: "json_loads ext raw1 = Some (PDict d1)" "json_loads ext raw2 = Some (PDict d2)"
      and e: "map_of d1 = map_of d2"
  proof -
    have t: "parse_timestamp ext c d1 = parse_timestamp ext c d2"
      by (simp add: parse_timestamp_def e)
    have g: "dict_get d1 k x = dict_get d2 k x" for k x
      by (simp add: dict_get_def e)
    show ?thesis
      by (simp add: build_sensor_data_def l t g e split: result.split option.split)
  qed
  show ?thesis
    using m b
    by (auto simp: hash_sensor_data_spec_def canonical_fields_def)
qed

theorem fingerprint_canonical_witness:
  "device_id example_reading = device_id (example_reading\<lparr>metadata := [(''site'', PStr ''A'')]\<rparr>)
   \<and> sensor_type example_reading = sensor_type (example_reading\<lparr>metadata := [(''site'', PStr ''A'')]\<rparr>)
   \<and> timestamp example_reading = timestamp (example_reading\<lparr>metadata := [(''site'', PStr ''A'')]\<rparr>)
   \<and> sensor_value example_reading
        = sensor_value (example_reading\<lparr>metadata := [(''site'', PStr ''A'')]\<rparr>)
   \<and> unit example_reading = unit (example_reading\<lparr>metadata := [(''site'', PStr ''A'')]\<rparr>)
   \<and> hash_sensor_data_spec example_digest example_reading
       = hash_sensor_data_spec example_digest (example_reading\<lparr>metadata := [(''site'', PStr ''A'')]\<rparr>)
   \<and> hash_sensor_data_spec example_digest example_reading
       = ''device_id=dev1;sensor_type=co2;timestamp=#;unit=;value=#;''
   \<and> json_loads example_extern ordered_payload
       = Some (PDict [(''value'', PNum 450), (''unit'', PStr ''ppm'')])
   \<and> json_loads example_extern swapped_payload
       = Some (PDict [(''unit'', PStr ''ppm''), (''value'', PNum 450)])
   \<and> build_sensor_data example_extern quiet ''dev1'' ''co2'' ordered_payload
       = build_sensor_data example_extern quiet ''dev1'' ''co2'' swapped_payload
   \<and> build_sensor_data example_extern quiet ''dev1'' ''co2'' ordered_payload
       = Returned (example_reading\<lparr>unit := ''ppm''\<rparr>)"
proof -
  have l1: "json_loads example_extern ordered_payload
       = Some (PDict [(''value'', PNum 450), (''unit'', PStr ''ppm'')])"
    by (simp add: example_extern_def ordered_payload_def value_payload_def low_payload_def
          status_payload_def)
  have l2: "json_loads example_extern swapped_payload
       = Some (PDict [(''unit'', PStr ''ppm''), (''value'', PNum 450)])"
    by (simp add: example_extern_def ordered_payload_def swapped_payload_def value_payload_def
          low_payload_def status_payload_def)
  have d: "distinct (map fst [(''value'', PNum 450), (''unit'', PStr ''ppm'')])"
          "distinct (map fst [(''unit'', PStr ''ppm''), (''value'', PNum 450)])"
          "set [(''value'', PNum 450), (''unit'', PStr ''ppm'')]
             = set [(''unit'', PStr ''ppm''), (''value'', PNum 450)]"
    by auto
  note t = fingerprint_canonical[where a = example_reading
      and b = "example_reading\<lparr>metadata := [(''site'', PStr ''A'')]\<rparr>"
      and dg = example_digest and ext = example_extern
      and ?raw1.0 = ordered_payload and ?raw2.0 = swapped_payload
      and ?d1.0 = "[(''value'', PNum 450), (''unit'', PStr ''ppm'')]"
      and ?d2.0 = "[(''unit'', PStr ''ppm''), (''value'', PNum 450)]"
      and c = quiet and did = "''dev1''" and st = "''co2''"]
  from t l1 l2 d have e: "build_sensor_data example_extern quiet ''dev1'' ''co2'' ordered_payload
       = build_sensor_data example_extern quiet ''dev1'' ''co2'' swapped_payload"
    by blast
  from t have h: "hash_sensor_data_spec example_digest example_reading
       = hash_sensor_data_spec example_digest (example_reading\<lparr>metadata := [(''site'', PStr ''A'')]\<rparr>)"
    by simp
  have v: "hash_sensor_data_spec example_digest example_reading
       = ''device_id=dev1;sensor_type=co2;timestamp=#;unit=;value=#;''"
    by (simp add: example_reading_def hash_sensor_data_spec_def canonical_fields_def
          example_digest_def)
  have b: "build_sensor_data example_extern quiet ''dev1'' ''co2'' swapped_payload
       = Returned (example_reading\<lparr>unit := ''ppm''\<rparr>)"
    by (simp add: build_sensor_data_def l2 parse_timestamp_def SensorData_init_def
        dict_get_def example_reading_def quiet_def)
  from e h v l1 l2 b show ?thesis by simp
qed

end
